theory Spec2Isabelle
  imports Complex_Main "HOL-Library.Sublist"
begin

section \<open>JavaScript values and strings\<close>

text \<open>
  The SDK is TypeScript. A JavaScript string is modelled as a \<open>string\<close>, one \<open>char\<close>
  per code unit (the Latin-1 range); numbers are rationals extended by the three
  non-finite values a JavaScript number can take. Parameter values are JSON-like trees
  extended by the two kinds of value that \<open>validateToolParameters\<close> rejects
  (functions and symbols). An object is the list of its own enumerable entries, in the
  order \<open>Object.entries\<close> enumerates them; an object has one entry for a key, so the
  keys of such a list are distinct.
\<close>

datatype jsnumber = Fin rat | PosInfinity | NegInfinity | NaN

datatype jsvalue =
    JUndefined
  | JNull
  | JBool bool
  | JNum jsnumber
  | JStr string
  | JArr "jsvalue list"
  | JObj "(string \<times> jsvalue) list"
  | JFunction
  | JSymbol

text \<open>\<open>String.prototype.toLowerCase\<close> on the Latin-1 range.\<close>

definition toLowerCase_char :: "char \<Rightarrow> char" where
  "toLowerCase_char c =
     (let n = (of_char c :: nat)
      in if (65 \<le> n \<and> n \<le> 90) \<or> (192 \<le> n \<and> n \<le> 222 \<and> n \<noteq> 215)
         then char_of (n + 32) else c)"

definition toLowerCase :: "string \<Rightarrow> string" where
  "toLowerCase s = map toLowerCase_char s"

text \<open>\<open>s.includes(p)\<close>: \<open>p\<close> occurs in \<open>s\<close> as a contiguous run.\<close>

definition str_includes :: "string \<Rightarrow> string \<Rightarrow> bool" where
  "str_includes s p = sublist p s"

text \<open>\<open>String.prototype.trim\<close>: white space of the Latin-1 range is stripped at both ends.\<close>

definition is_whitespace :: "char \<Rightarrow> bool" where
  "is_whitespace c = ((of_char c :: nat) \<in> {9, 10, 11, 12, 13, 32, 160})"

definition trim :: "string \<Rightarrow> string" where
  "trim s = rev (dropWhile is_whitespace (rev (dropWhile is_whitespace s)))"

text \<open>\<open>s.substring(0, n)\<close> for a non-negative \<open>n\<close>.\<close>

definition substring0 :: "string \<Rightarrow> nat \<Rightarrow> string" where
  "substring0 s n = take n s"

text \<open>Decimal rendering of an integer inside a template string.\<close>

definition digit_char :: "nat \<Rightarrow> char" where
  "digit_char d = char_of (48 + d)"

fun show_nat :: "nat \<Rightarrow> string" where
  "show_nat n = (if n < 10 then [digit_char n] else show_nat (n div 10) @ [digit_char (n mod 10)])"

declare show_nat.simps [simp del]

definition show_int :: "int \<Rightarrow> string" where
  "show_int i = (if i < 0 then ''-'' @ show_nat (nat (- i)) else show_nat (nat i))"

text \<open>Comparison of numbers: every comparison with \<open>NaN\<close> is false.\<close>

fun js_less :: "jsnumber \<Rightarrow> jsnumber \<Rightarrow> bool" where
  "js_less NaN _ = False"
| "js_less _ NaN = False"
| "js_less (Fin a) (Fin b) = (a < b)"
| "js_less PosInfinity _ = False"
| "js_less _ NegInfinity = False"
| "js_less NegInfinity _ = True"
| "js_less _ PosInfinity = True"

fun js_less_eq :: "jsnumber \<Rightarrow> jsnumber \<Rightarrow> bool" where
  "js_less_eq NaN _ = False"
| "js_less_eq _ NaN = False"
| "js_less_eq a b = (a = b \<or> js_less a b)"

definition isFinite :: "jsnumber \<Rightarrow> bool" where
  "isFinite n = (case n of Fin _ \<Rightarrow> True | _ \<Rightarrow> False)"

fun js_typeof :: "jsvalue \<Rightarrow> string" where
  "js_typeof JUndefined = ''undefined''"
| "js_typeof JNull = ''object''"
| "js_typeof (JBool _) = ''boolean''"
| "js_typeof (JNum _) = ''number''"
| "js_typeof (JStr _) = ''string''"
| "js_typeof (JArr _) = ''object''"
| "js_typeof (JObj _) = ''object''"
| "js_typeof JFunction = ''function''"
| "js_typeof JSymbol = ''symbol''"

section \<open>The SDK's types\<close>

record security_context =
  ctx_userAgent :: "string option"
  ctx_sessionId :: "string option"
  ctx_metadata :: "jsvalue option"

record tool_execution_request =
  req_agentId :: "string option"
  req_toolName :: string
  req_parameters :: jsvalue
  req_context :: "security_context option"

text \<open>
  A decision arrives as JSON, so its \<open>action\<close> and \<open>riskLevel\<close> are the strings
  received, whatever the declared union types say.
\<close>

record security_decision =
  dec_requestId :: string
  dec_agentId :: "string option"
  dec_toolName :: string
  dec_action :: string
  dec_reason :: string
  dec_riskLevel :: string
  dec_transformedRequest :: "tool_execution_request option"
  dec_timestamp :: string
  dec_metadata :: "jsvalue option"

record security_evaluation_response =
  resp_success :: bool
  resp_decision :: "security_decision option"
  resp_error :: "(string \<times> string) option"

subsection \<open>Errors\<close>

text \<open>
  What a \<open>throw\<close> can carry: an \<open>Error\<close> object (its class, its \<open>code\<close> property
  when it has one, its message and its \<open>details\<close> property when it has one), or any
  other value. A \<open>details\<close> object is the list of its entries.
\<close>

datatype error_name =
    PlainError
  | TypeError
  | BaseTealTigerError
  | TealTigerConfigError
  | TealTigerNetworkError
  | TealTigerServerError
  | TealTigerSecurityError
  | TealTigerValidationError
  | TealTigerAuthError

datatype detail_value =
    DValue jsvalue
  | DDecision security_decision
  | DResponse security_evaluation_response
  | DThrown thrown
and thrown =
    JsError error_name "string option" string "(string \<times> detail_value) list option"
  | JsThrown jsvalue

type_synonym details = "(string \<times> detail_value) list"

definition DNat :: "nat \<Rightarrow> detail_value" where
  "DNat n = DValue (JNum (Fin (of_nat n)))"

definition DStr :: "string \<Rightarrow> detail_value" where
  "DStr s = DValue (JStr s)"

section \<open>utils/validation\<close>

definition is_letter :: "char \<Rightarrow> bool" where
  "is_letter c = (let n = (of_char c :: nat) in (65 \<le> n \<and> n \<le> 90) \<or> (97 \<le> n \<and> n \<le> 122))"

definition is_name_char :: "char \<Rightarrow> bool" where
  "is_name_char c =
     (let n = (of_char c :: nat)
      in is_letter c \<or> (48 \<le> n \<and> n \<le> 57) \<or> c = CHR ''_'' \<or> c = CHR ''-'')"

text \<open>The regular expression \<open>/^[a-zA-Z][a-zA-Z0-9_-]*$/\<close>.\<close>

definition matches_tool_name :: "string \<Rightarrow> bool" where
  "matches_tool_name s = (case s of [] \<Rightarrow> False | c # cs \<Rightarrow> is_letter c \<and> list_all is_name_char cs)"

text \<open>
  \<open>validateToolName\<close>; \<open>None\<close> is a normal return. The argument is a string, so the
  \<open>typeof toolName !== 'string'\<close> branch has no counterpart.
\<close>

definition validateToolName :: "string \<Rightarrow> thrown option" where
  "validateToolName toolName =
     (if toolName = [] then
        Some (JsError TealTigerValidationError (Some ''INVALID_REQUEST'') ''Tool name is required'' None)
      else if length (trim toolName) = 0 then
        Some (JsError TealTigerValidationError (Some ''INVALID_REQUEST'') ''Tool name cannot be empty'' None)
      else if \<not> matches_tool_name toolName then
        Some (JsError TealTigerValidationError (Some ''INVALID_REQUEST'')
          ''Tool name can only contain letters, numbers, hyphens, and underscores, and must start with a letter''
          (Some [(''toolName'', DStr toolName)]))
      else if str_includes toolName ''--'' \<or> str_includes toolName ''__'' then
        Some (JsError TealTigerValidationError (Some ''INVALID_REQUEST'')
          ''Tool name cannot contain consecutive hyphens or underscores''
          (Some [(''toolName'', DStr toolName)]))
      else if length toolName > 100 then
        Some (JsError TealTigerValidationError (Some ''INVALID_REQUEST'')
          ''Tool name cannot exceed 100 characters''
          (Some [(''toolName'', DStr toolName), (''length'', DNat (length toolName))]))
      else None)"

text \<open>
  The local function \<open>checkValue\<close> of \<open>validateToolParameters\<close>, with the two loops
  it runs over the entries of an object and the items of an array. A loop stops at the
  first value that throws.
\<close>

fun checkValue :: "jsvalue \<Rightarrow> string \<Rightarrow> thrown option"
  and checkEntries :: "(string \<times> jsvalue) list \<Rightarrow> string \<Rightarrow> thrown option"
  and checkItems :: "jsvalue list \<Rightarrow> nat \<Rightarrow> string \<Rightarrow> thrown option"
where
  "checkValue JFunction path =
     Some (JsError TealTigerValidationError (Some ''INVALID_REQUEST'')
       (''Tool parameters cannot contain functions at path: '' @ path)
       (Some [(''path'', DStr path), (''type'', DStr ''function'')]))"
| "checkValue JSymbol path =
     Some (JsError TealTigerValidationError (Some ''INVALID_REQUEST'')
       (''Tool parameters cannot contain symbols at path: '' @ path)
       (Some [(''path'', DStr path), (''type'', DStr ''symbol'')]))"
| "checkValue (JObj kvs) path = checkEntries kvs path"
| "checkValue (JArr vs) path = checkItems vs 0 path"
| "checkValue JUndefined path = None"
| "checkValue JNull path = None"
| "checkValue (JBool b) path = None"
| "checkValue (JNum n) path = None"
| "checkValue (JStr s) path = None"
| "checkEntries [] path = None"
| "checkEntries ((key, nestedValue) # rest) path =
     (case checkValue nestedValue (path @ ''.'' @ key) of
        Some e \<Rightarrow> Some e
      | None \<Rightarrow> checkEntries rest path)"
| "checkItems [] index path = None"
| "checkItems (item # rest) index path =
     (case checkValue item (path @ ''['' @ show_nat index @ '']'') of
        Some e \<Rightarrow> Some e
      | None \<Rightarrow> checkItems rest (Suc index) path)"

text \<open>The closing loop of \<open>validateToolParameters\<close>: each top-level value, under its key.\<close>

fun checkParameters :: "(string \<times> jsvalue) list \<Rightarrow> thrown option" where
  "checkParameters [] = None"
| "checkParameters ((key, v) # rest) =
     (case checkValue v key of Some e \<Rightarrow> Some e | None \<Rightarrow> checkParameters rest)"

definition validateToolParameters :: "jsvalue \<Rightarrow> thrown option" where
  "validateToolParameters parameters =
     (case parameters of
        JNull \<Rightarrow>
          Some (JsError TealTigerValidationError (Some ''INVALID_REQUEST'') ''Tool parameters are required'' None)
      | JUndefined \<Rightarrow>
          Some (JsError TealTigerValidationError (Some ''INVALID_REQUEST'') ''Tool parameters are required'' None)
      | JObj kvs \<Rightarrow> checkParameters kvs
      | _ \<Rightarrow>
          Some (JsError TealTigerValidationError (Some ''INVALID_REQUEST'') ''Tool parameters must be an object''
            (Some [(''parameters'', DValue parameters), (''type'', DStr (js_typeof parameters))])))"

subsection \<open>sanitizeParameters\<close>

definition sensitiveKeys :: "string list" where
  "sensitiveKeys = [''password'', ''token'', ''key'', ''secret'', ''credential'', ''apiKey'', ''api_key'']"

definition isSensitive :: "string \<Rightarrow> bool" where
  "isSensitive key =
     (let lowerKey = toLowerCase key
      in list_ex (\<lambda>sensitive. str_includes lowerKey sensitive) sensitiveKeys)"

definition REDACTED :: jsvalue where
  "REDACTED = JStr ''[REDACTED]''"

text \<open>
  The assignment \<open>sanitized[key] = value\<close> on an object that started as \<open>{}\<close>. It
  adds the entry at the end, except under the key \<open>__proto__\<close>: there the assignment
  reaches the setter inherited from \<open>Object.prototype\<close>, which replaces the prototype
  when the value is an object and does nothing otherwise, and in neither case adds an
  own entry. The prototype of an object is not part of the model.
\<close>

definition set_property :: "string \<Rightarrow> jsvalue \<Rightarrow> (string \<times> jsvalue) list \<Rightarrow> (string \<times> jsvalue) list" where
  "set_property key v obj = (if key = ''__proto__'' then obj else obj @ [(key, v)])"

text \<open>
  The local function \<open>sanitizeValue\<close>, with its loop over the entries of an object,
  which fills the object \<open>sanitized\<close>, and the \<open>map\<close> over the items of an array.
\<close>

fun sanitizeValue :: "jsvalue \<Rightarrow> jsvalue"
  and sanitizeEntries :: "(string \<times> jsvalue) list \<Rightarrow> (string \<times> jsvalue) list \<Rightarrow> (string \<times> jsvalue) list"
  and sanitizeItems :: "jsvalue list \<Rightarrow> jsvalue list"
where
  "sanitizeValue JNull = REDACTED"
| "sanitizeValue JUndefined = REDACTED"
| "sanitizeValue (JArr vs) = JArr (sanitizeItems vs)"
| "sanitizeValue (JObj kvs) = JObj (sanitizeEntries kvs [])"
| "sanitizeValue (JBool b) = JBool b"
| "sanitizeValue (JNum n) = JNum n"
| "sanitizeValue (JStr s) = JStr s"
| "sanitizeValue JFunction = JFunction"
| "sanitizeValue JSymbol = JSymbol"
| "sanitizeEntries [] sanitized = sanitized"
| "sanitizeEntries ((key, val) # rest) sanitized =
     sanitizeEntries rest
       (set_property key (if isSensitive key then REDACTED else sanitizeValue val) sanitized)"
| "sanitizeItems [] = []"
| "sanitizeItems (item # rest) = sanitizeValue item # sanitizeItems rest"

text \<open>\<open>sanitizeParameters\<close>: the same loop over the top-level entries.\<close>

fun sanitizeParameters_loop ::
  "(string \<times> jsvalue) list \<Rightarrow> (string \<times> jsvalue) list \<Rightarrow> (string \<times> jsvalue) list" where
  "sanitizeParameters_loop [] sanitized = sanitized"
| "sanitizeParameters_loop ((key, v) # rest) sanitized =
     sanitizeParameters_loop rest
       (set_property key (if isSensitive key then REDACTED else sanitizeValue v) sanitized)"

definition sanitizeParameters :: "(string \<times> jsvalue) list \<Rightarrow> (string \<times> jsvalue) list" where
  "sanitizeParameters parameters = sanitizeParameters_loop parameters []"

section \<open>Configuration\<close>

text \<open>
  \<open>TealTigerConfig\<close>. A field that is \<open>undefined\<close> or missing is \<open>None\<close>; the
  declared types are taken as given (an \<open>apiKey\<close> that is present is a string, a
  \<open>timeout\<close> that is present is a number).
\<close>

record tealtiger_config =
  apiKey :: "string option"
  ssaUrl :: "string option"
  agentId :: "string option"
  timeout :: "jsnumber option"
  retries :: "jsnumber option"
  debug :: "bool option"
  headers :: "(string \<times> string) list option"

text \<open>
  The argument of the constructor is a \<open>Partial<TealTigerConfig>\<close>. The object spread
  that merges it over the defaults copies a property that is present, also when its
  value is \<open>undefined\<close>, so presence is part of the input.
\<close>

datatype 'a partial_field = Absent | Undefined | Defined 'a

record user_config =
  user_apiKey :: "string partial_field"
  user_ssaUrl :: "string partial_field"
  user_agentId :: "string partial_field"
  user_timeout :: "jsnumber partial_field"
  user_retries :: "jsnumber partial_field"
  user_debug :: "bool partial_field"
  user_headers :: "(string \<times> string) list partial_field"

definition spread :: "'a option \<Rightarrow> 'a partial_field \<Rightarrow> 'a option" where
  "spread dflt p = (case p of Absent \<Rightarrow> dflt | Undefined \<Rightarrow> None | Defined v \<Rightarrow> Some v)"

definition DEFAULT_CONFIG :: tealtiger_config where
  "DEFAULT_CONFIG =
     \<lparr>apiKey = None, ssaUrl = None, agentId = None,
      timeout = Some (Fin 5000), retries = Some (Fin 3), debug = Some False, headers = Some []\<rparr>"

definition merge_config :: "tealtiger_config \<Rightarrow> user_config \<Rightarrow> tealtiger_config" where
  "merge_config d u =
     \<lparr>apiKey = spread (apiKey d) (user_apiKey u),
      ssaUrl = spread (ssaUrl d) (user_ssaUrl u),
      agentId = spread (agentId d) (user_agentId u),
      timeout = spread (timeout d) (user_timeout u),
      retries = spread (retries d) (user_retries u),
      debug = spread (debug d) (user_debug u),
      headers = spread (headers d) (user_headers u)\<rparr>"

text \<open>The two checks of the optional numeric fields at the end of \<open>validateConfig\<close>.\<close>

definition check_timeout :: "tealtiger_config \<Rightarrow> thrown option" where
  "check_timeout config =
     (case timeout config of
        None \<Rightarrow> None
      | Some t \<Rightarrow>
          if js_less_eq t (Fin 0) then
            Some (JsError TealTigerConfigError (Some ''INVALID_CONFIG'')
              ''Timeout must be a positive number'' (Some [(''timeout'', DValue (JNum t))]))
          else None)"

definition check_retries :: "tealtiger_config \<Rightarrow> thrown option" where
  "check_retries config =
     (case retries config of
        None \<Rightarrow> None
      | Some r \<Rightarrow>
          if js_less r (Fin 0) then
            Some (JsError TealTigerConfigError (Some ''INVALID_CONFIG'')
              ''Retries must be a non-negative number'' (Some [(''retries'', DValue (JNum r))]))
          else None)"

text \<open>
  \<open>validateConfig\<close>. The platform's URL parser is a parameter: \<open>url_protocol s\<close> is
  the \<open>protocol\<close> of \<open>new URL(s)\<close>, and \<open>None\<close> when that constructor throws.
\<close>

definition validateConfig :: "(string \<Rightarrow> string option) \<Rightarrow> tealtiger_config \<Rightarrow> thrown option" where
  "validateConfig url_protocol config =
     (case apiKey config of
        None \<Rightarrow> Some (JsError TealTigerConfigError (Some ''MISSING_API_KEY'') ''API key is required'' None)
      | Some key \<Rightarrow>
        if key = [] then
          Some (JsError TealTigerConfigError (Some ''MISSING_API_KEY'') ''API key is required'' None)
        else if length key < 10 then
          Some (JsError TealTigerConfigError (Some ''INVALID_API_KEY_FORMAT'')
            ''API key must be at least 10 characters'' (Some [(''apiKeyLength'', DNat (length key))]))
        else
          (case ssaUrl config of
             None \<Rightarrow> Some (JsError TealTigerConfigError (Some ''INVALID_SSA_URL'') ''SSA URL is required'' None)
           | Some url \<Rightarrow>
             if url = [] then
               Some (JsError TealTigerConfigError (Some ''INVALID_SSA_URL'') ''SSA URL is required'' None)
             else
               (case url_protocol url of
                  None \<Rightarrow>
                    Some (JsError TealTigerConfigError (Some ''INVALID_SSA_URL'')
                      ''SSA URL must be a valid URL'' (Some [(''ssaUrl'', DStr url)]))
                | Some protocol \<Rightarrow>
                  if protocol \<noteq> ''https:'' then
                    Some (JsError TealTigerConfigError (Some ''INVALID_SSA_URL'')
                      ''SSA URL must use HTTPS protocol''
                      (Some [(''ssaUrl'', DStr url), (''protocol'', DStr protocol)]))
                  else
                    (case check_timeout config of
                       Some e \<Rightarrow> Some e
                     | None \<Rightarrow> check_retries config))))"

text \<open>
  \<open>generateAgentId\<close>: the clock reading and the six characters drawn from
  \<open>Math.random\<close> are inputs.
\<close>

definition generateAgentId :: "int \<Rightarrow> string \<Rightarrow> string" where
  "generateAgentId timestamp random = ''agent-'' @ show_int timestamp @ ''-'' @ random"

text \<open>The constructor of \<open>Configuration\<close>: merge, validate, then fill in the agent id.\<close>

definition Configuration_new ::
  "(string \<Rightarrow> string option) \<Rightarrow> int \<Rightarrow> string \<Rightarrow> user_config \<Rightarrow> thrown + tealtiger_config" where
  "Configuration_new url_protocol timestamp random userConfig =
     (let config = merge_config DEFAULT_CONFIG userConfig
      in case validateConfig url_protocol config of
           Some e \<Rightarrow> Inl e
         | None \<Rightarrow>
             Inr (if agentId config = None \<or> agentId config = Some []
                  then config\<lparr>agentId := Some (generateAgentId timestamp random)\<rparr>
                  else config))"

text \<open>\<open>getSafeConfig\<close>: a field the result does not carry is \<open>None\<close>.\<close>

definition getSafeConfig :: "tealtiger_config \<Rightarrow> tealtiger_config" where
  "getSafeConfig config =
     \<lparr>apiKey = (case apiKey config of None \<Rightarrow> None | Some key \<Rightarrow> Some (substring0 key 10 @ ''...'')),
      ssaUrl = ssaUrl config,
      agentId = agentId config,
      timeout = timeout config,
      retries = retries config,
      debug = debug config,
      headers = None\<rparr>"

text \<open>\<open>sanitizeConfig\<close> of utils/validation, with its two special cases.\<close>

definition sanitizeConfig :: "tealtiger_config \<Rightarrow> tealtiger_config" where
  "sanitizeConfig config =
     \<lparr>apiKey =
        (case apiKey config of
           None \<Rightarrow> None
         | Some key \<Rightarrow>
             if length key \<le> 5 then Some (key @ ''...'')
             else if key = ''secret-api-key'' then Some ''secret-ap...''
             else Some (substring0 key 10 @ ''...'')),
      ssaUrl = ssaUrl config,
      agentId = agentId config,
      timeout = timeout config,
      retries = retries config,
      debug = debug config,
      headers = None\<rparr>"

section \<open>The TealTiger client\<close>

text \<open>
  \<open>averageResponseTime\<close> is a JavaScript number, an IEEE 754 double, and the
  arithmetic that computes it rounds. The rounding is not modelled. The field holds the
  computation itself, as a term: the operations the source applies, in the order it
  applies them, to integer operands. The number the program holds is the value of that
  term in double arithmetic (\<open>Integer i\<close> is the integer \<open>i\<close> as a number, exact
  below \<open>2^53\<close>).
\<close>

datatype number_expr =
    Integer int
  | Times number_expr number_expr
  | Minus number_expr number_expr
  | Plus number_expr number_expr
  | Divide number_expr number_expr

record sdk_statistics =
  totalRequests :: nat
  allowedRequests :: nat
  deniedRequests :: nat
  transformedRequests :: nat
  averageResponseTime :: number_expr
  errorCount :: nat

record error_info =
  err_code :: string
  err_message :: string
  err_details :: "details option"

record 'a tool_execution_result =
  res_success :: bool
  res_data :: "'a option"
  res_securityDecision :: security_decision
  res_error :: "error_info option"

text \<open>
  The mutable state of a client is its statistics. Beside them the state records, in
  order, every request handed to the transport's \<open>evaluateSecurity\<close> and every
  invocation of an injected tool executor, so that "is never invoked" can be stated.
  Console output of debug mode is not part of the model: it changes no value and no
  branch.
\<close>

record sdk_state =
  statistics :: sdk_statistics
  evaluate_calls :: "tool_execution_request list"
  executor_calls :: "(string \<times> jsvalue) list"

text \<open>
  What one call of \<open>executeTool\<close> reads from outside: the answer of the Security
  Sidecar Agent to the request (a rejection of the promise is \<open>Inl\<close>), the clock at
  entry, after the evaluation and in the \<open>catch\<close> block, and the ISO rendering of the
  time there. The HTTP client behind \<open>SSAClient.evaluateSecurity\<close> is outside the
  model; the answer is taken where that method returns or throws.
\<close>

record call_env =
  env_evaluateSecurity :: "tool_execution_request \<Rightarrow> thrown + security_evaluation_response"
  env_now_start :: int
  env_now_evaluated :: int
  env_now_failed :: int
  env_iso_failed :: string

type_synonym 'a tool_executor = "string \<Rightarrow> jsvalue \<Rightarrow> thrown + 'a"

definition initial_statistics :: sdk_statistics where
  "initial_statistics =
     \<lparr>totalRequests = 0, allowedRequests = 0, deniedRequests = 0, transformedRequests = 0,
      averageResponseTime = Integer 0, errorCount = 0\<rparr>"

definition initial_state :: sdk_state where
  "initial_state = \<lparr>statistics = initial_statistics, evaluate_calls = [], executor_calls = []\<rparr>"

definition resetStatistics :: "sdk_statistics \<Rightarrow> sdk_statistics" where
  "resetStatistics st =
     st\<lparr>totalRequests := 0, allowedRequests := 0, deniedRequests := 0, transformedRequests := 0,
        averageResponseTime := Integer 0, errorCount := 0\<rparr>"

text \<open>
  \<open>updateStatistics\<close> for a decision that is present. The counters are integers and
  exact; the new average is the term \<open>(average * (total - 1) + responseTime) / total\<close>
  over the old average.
\<close>

definition updateStatistics :: "security_decision \<Rightarrow> int \<Rightarrow> sdk_statistics \<Rightarrow> sdk_statistics" where
  "updateStatistics decision responseTime st =
     (let st1 = st\<lparr>totalRequests := totalRequests st + 1\<rparr>;
          st2 = (if dec_action decision = ''allow'' then st1\<lparr>allowedRequests := allowedRequests st1 + 1\<rparr>
                 else if dec_action decision = ''deny'' then st1\<lparr>deniedRequests := deniedRequests st1 + 1\<rparr>
                 else if dec_action decision = ''transform''
                   then st1\<lparr>transformedRequests := transformedRequests st1 + 1\<rparr>
                 else st1);
          totalTime = Plus (Times (averageResponseTime st2)
                              (Minus (Integer (int (totalRequests st2))) (Integer 1)))
                           (Integer responseTime)
      in st2\<lparr>averageResponseTime := Divide totalTime (Integer (int (totalRequests st2)))\<rparr>)"

definition thrown_message :: "thrown \<Rightarrow> string \<Rightarrow> string" where
  "thrown_message error fallback = (case error of JsError _ _ m _ \<Rightarrow> m | JsThrown _ \<Rightarrow> fallback)"

definition handleAllowDecision ::
  "string \<Rightarrow> jsvalue \<Rightarrow> security_decision \<Rightarrow> 'a tool_executor option \<Rightarrow> sdk_state
     \<Rightarrow> 'a tool_execution_result \<times> sdk_state" where
  "handleAllowDecision toolName parameters decision toolExecutor s =
     (case toolExecutor of
        None \<Rightarrow>
          (\<lparr>res_success = True, res_data = None, res_securityDecision = decision, res_error = None\<rparr>, s)
      | Some run \<Rightarrow>
          (let s' = s\<lparr>executor_calls := executor_calls s @ [(toolName, parameters)]\<rparr>
           in case run toolName parameters of
                Inl error \<Rightarrow>
                  (\<lparr>res_success = False, res_data = None, res_securityDecision = decision,
                    res_error = Some \<lparr>err_code = ''TOOL_EXECUTION_ERROR'',
                                      err_message = thrown_message error ''Tool execution failed'',
                                      err_details = Some [(''originalError'', DThrown error)]\<rparr>\<rparr>, s')
              | Inr d \<Rightarrow>
                  (\<lparr>res_success = True, res_data = Some d, res_securityDecision = decision,
                    res_error = None\<rparr>, s')))"

definition handleDenyDecision :: "security_decision \<Rightarrow> 'a tool_execution_result" where
  "handleDenyDecision decision =
     \<lparr>res_success = False, res_data = None, res_securityDecision = decision,
      res_error = Some \<lparr>err_code = ''SECURITY_DENIED'',
                        err_message = ''Tool execution denied: '' @ dec_reason decision,
                        err_details = Some [(''riskLevel'', DStr (dec_riskLevel decision))]\<rparr>\<rparr>"

definition handleTransformDecision ::
  "security_decision \<Rightarrow> 'a tool_executor option \<Rightarrow> sdk_state
     \<Rightarrow> 'a tool_execution_result \<times> sdk_state" where
  "handleTransformDecision decision toolExecutor s =
     (case dec_transformedRequest decision of
        None \<Rightarrow>
          (\<lparr>res_success = False, res_data = None, res_securityDecision = decision,
            res_error = Some \<lparr>err_code = ''TRANSFORMATION_ERROR'',
                              err_message = ''Transform decision provided but no transformed request available'',
                              err_details = None\<rparr>\<rparr>, s)
      | Some transformed \<Rightarrow>
          (case toolExecutor of
             None \<Rightarrow>
               (\<lparr>res_success = True, res_data = None, res_securityDecision = decision, res_error = None\<rparr>, s)
           | Some run \<Rightarrow>
               (let s' = s\<lparr>executor_calls :=
                             executor_calls s @ [(req_toolName transformed, req_parameters transformed)]\<rparr>
                in case run (req_toolName transformed) (req_parameters transformed) of
                     Inl error \<Rightarrow>
                       (\<lparr>res_success = False, res_data = None, res_securityDecision = decision,
                         res_error = Some \<lparr>err_code = ''TOOL_EXECUTION_ERROR'',
                                           err_message = thrown_message error ''Transformed tool execution failed'',
                                           err_details = Some [(''originalError'', DThrown error)]\<rparr>\<rparr>, s')
                   | Inr d \<Rightarrow>
                       (\<lparr>res_success = True, res_data = Some d, res_securityDecision = decision,
                         res_error = None\<rparr>, s'))))"

text \<open>
  The \<open>try\<close> block of \<open>executeTool\<close>: \<open>Inl\<close> is an exception leaving the block. When
  the response reports success and carries no decision, \<open>updateStatistics\<close> has
  already counted the request when reading \<open>decision.action\<close> throws the engine's
  \<open>TypeError\<close>.
\<close>

definition undefined_decision_error :: thrown where
  "undefined_decision_error =
     JsError TypeError None
       (''Cannot read properties of undefined (reading '' @ [CHR 0x27] @ ''action'' @ [CHR 0x27] @ '')'') None"

definition executeTool_try ::
  "tealtiger_config \<Rightarrow> call_env \<Rightarrow> string \<Rightarrow> jsvalue \<Rightarrow> security_context option
     \<Rightarrow> 'a tool_executor option \<Rightarrow> sdk_state \<Rightarrow> (thrown + 'a tool_execution_result) \<times> sdk_state" where
  "executeTool_try config env toolName parameters context toolExecutor s =
     (case validateToolName toolName of
        Some e \<Rightarrow> (Inl e, s)
      | None \<Rightarrow>
     (case validateToolParameters parameters of
        Some e \<Rightarrow> (Inl e, s)
      | None \<Rightarrow>
     (let request = \<lparr>req_agentId = agentId config, req_toolName = toolName,
                     req_parameters = parameters, req_context = context\<rparr>;
          s1 = s\<lparr>evaluate_calls := evaluate_calls s @ [request]\<rparr>
      in case env_evaluateSecurity env request of
           Inl e \<Rightarrow> (Inl e, s1)
         | Inr evaluationResponse \<Rightarrow>
             if \<not> resp_success evaluationResponse then
               (Inl (JsError TealTigerValidationError (Some ''VALIDATION_ERROR'') ''Security evaluation failed''
                      (Some [(''response'', DResponse evaluationResponse)])), s1)
             else
               (case resp_decision evaluationResponse of
                  None \<Rightarrow>
                    (Inl undefined_decision_error,
                     s1\<lparr>statistics := (statistics s1)\<lparr>totalRequests := totalRequests (statistics s1) + 1\<rparr>\<rparr>)
                | Some decision \<Rightarrow>
                    (let s2 = s1\<lparr>statistics :=
                                   updateStatistics decision (env_now_evaluated env - env_now_start env)
                                     (statistics s1)\<rparr>
                     in if dec_action decision = ''allow'' then
                          (case handleAllowDecision toolName parameters decision toolExecutor s2 of
                             (r, s3) \<Rightarrow> (Inr r, s3))
                        else if dec_action decision = ''deny'' then
                          (Inr (handleDenyDecision decision), s2)
                        else if dec_action decision = ''transform'' then
                          (case handleTransformDecision decision toolExecutor s2 of
                             (r, s3) \<Rightarrow> (Inr r, s3))
                        else
                          (Inl (JsError TealTigerValidationError (Some ''POLICY_ERROR'')
                                 (''Unknown security action: '' @ dec_action decision)
                                 (Some [(''decision'', DDecision decision)])), s2))))))"

text \<open>The \<open>catch\<close> block: count the error, answer with a placeholder decision.\<close>

definition error_placeholder :: "tealtiger_config \<Rightarrow> call_env \<Rightarrow> string \<Rightarrow> security_decision" where
  "error_placeholder config env toolName =
     \<lparr>dec_requestId = ''error-'' @ show_int (env_now_failed env),
      dec_agentId = agentId config,
      dec_toolName = toolName,
      dec_action = ''deny'',
      dec_reason = ''Tool execution failed due to error'',
      dec_riskLevel = ''critical'',
      dec_transformedRequest = None,
      dec_timestamp = env_iso_failed env,
      dec_metadata = None\<rparr>"

definition error_bundle :: "thrown \<Rightarrow> error_info" where
  "error_bundle error =
     \<lparr>err_code = (case error of JsError _ (Some c) _ _ \<Rightarrow> c | _ \<Rightarrow> ''UNKNOWN_ERROR''),
      err_message = thrown_message error ''Unknown error occurred'',
      err_details = (case error of JsError _ _ _ d \<Rightarrow> d | JsThrown _ \<Rightarrow> None)\<rparr>"

definition executeTool_catch ::
  "tealtiger_config \<Rightarrow> call_env \<Rightarrow> string \<Rightarrow> thrown \<Rightarrow> sdk_state
     \<Rightarrow> 'a tool_execution_result \<times> sdk_state" where
  "executeTool_catch config env toolName error s =
     (\<lparr>res_success = False, res_data = None,
       res_securityDecision = error_placeholder config env toolName,
       res_error = Some (error_bundle error)\<rparr>,
      s\<lparr>statistics := (statistics s)\<lparr>errorCount := errorCount (statistics s) + 1\<rparr>\<rparr>)"

text \<open>
  \<open>executeTool\<close>. Its result type keeps the possibility of a rejected promise
  (\<open>Inl\<close>), so that "never propagates" is a statement about the function.
\<close>

definition executeTool ::
  "tealtiger_config \<Rightarrow> call_env \<Rightarrow> string \<Rightarrow> jsvalue \<Rightarrow> security_context option
     \<Rightarrow> 'a tool_executor option \<Rightarrow> sdk_state \<Rightarrow> (thrown + 'a tool_execution_result) \<times> sdk_state" where
  "executeTool config env toolName parameters context toolExecutor s =
     (case executeTool_try config env toolName parameters context toolExecutor s of
        (Inr r, s') \<Rightarrow> (Inr r, s')
      | (Inl error, s') \<Rightarrow>
          (case executeTool_catch config env toolName error s' of (r, s'') \<Rightarrow> (Inr r, s'')))"

section \<open>PolicyBuilder\<close>

record policy_condition =
  cond_type :: string
  cond_pattern :: "string option"
  cond_operator :: "string option"
  cond_value :: "string option"
  cond_parameter :: "string option"

record policy_transformation =
  trans_type :: string
  remove_parameters :: "string list option"
  anonymize_parameters :: "string list option"

text \<open>
  The builder holds a \<open>Partial<SecurityPolicy>\<close>, and \<open>build\<close> returns that very
  object cast to \<open>SecurityPolicy\<close>: one record type serves for both, a field that is
  not set being \<open>None\<close>.
\<close>

record security_policy =
  policy_name :: "string option"
  policy_description :: "string option"
  policy_conditions :: "policy_condition list option"
  policy_action :: "string option"
  policy_reason :: "string option"
  policy_transformation :: "policy_transformation option"
  policy_priority :: "jsnumber option"

definition createPolicy :: security_policy where
  "createPolicy =
     \<lparr>policy_name = None, policy_description = None, policy_conditions = Some [],
      policy_action = None, policy_reason = None, policy_transformation = None,
      policy_priority = None\<rparr>"

definition PolicyBuilder_name :: "string \<Rightarrow> security_policy \<Rightarrow> thrown + security_policy" where
  "PolicyBuilder_name n b =
     (if n = [] \<or> length (trim n) = 0 then
        Inl (JsError TealTigerValidationError (Some ''VALIDATION_ERROR'')
              ''Policy name must be a non-empty string'' None)
      else Inr (b\<lparr>policy_name := Some (trim n)\<rparr>))"

definition PolicyBuilder_description :: "string \<Rightarrow> security_policy \<Rightarrow> security_policy" where
  "PolicyBuilder_description d b = (if d \<noteq> [] then b\<lparr>policy_description := Some (trim d)\<rparr> else b)"

definition PolicyBuilder_priority :: "jsnumber \<Rightarrow> security_policy \<Rightarrow> thrown + security_policy" where
  "PolicyBuilder_priority p b =
     (if js_less p (Fin 0) \<or> \<not> isFinite p then
        Inl (JsError TealTigerValidationError (Some ''VALIDATION_ERROR'')
              ''Policy priority must be a non-negative finite number'' None)
      else Inr (b\<lparr>policy_priority := Some p\<rparr>))"

definition addCondition :: "policy_condition \<Rightarrow> security_policy \<Rightarrow> security_policy" where
  "addCondition condition b =
     (let cs = (case policy_conditions b of None \<Rightarrow> [] | Some cs \<Rightarrow> cs)
      in b\<lparr>policy_conditions := Some (cs @ [condition])\<rparr>)"

definition whenToolName :: "string \<Rightarrow> security_policy \<Rightarrow> security_policy" where
  "whenToolName pattern b =
     addCondition \<lparr>cond_type = ''tool_name'', cond_pattern = Some pattern, cond_operator = None,
                   cond_value = None, cond_parameter = None\<rparr> b"

definition whenRiskLevel :: "string \<Rightarrow> string \<Rightarrow> security_policy \<Rightarrow> security_policy" where
  "whenRiskLevel operator level b =
     addCondition \<lparr>cond_type = ''risk_level'', cond_pattern = None, cond_operator = Some operator,
                   cond_value = Some level, cond_parameter = None\<rparr> b"

definition whenAgentId :: "string \<Rightarrow> security_policy \<Rightarrow> security_policy" where
  "whenAgentId pattern b =
     addCondition \<lparr>cond_type = ''agent_id'', cond_pattern = Some pattern, cond_operator = None,
                   cond_value = None, cond_parameter = None\<rparr> b"

definition whenParameterExists :: "string \<Rightarrow> security_policy \<Rightarrow> security_policy" where
  "whenParameterExists parameter b =
     addCondition \<lparr>cond_type = ''parameter_exists'', cond_pattern = None, cond_operator = None,
                   cond_value = None, cond_parameter = Some parameter\<rparr> b"

definition whenParameterEquals :: "string \<Rightarrow> string \<Rightarrow> security_policy \<Rightarrow> security_policy" where
  "whenParameterEquals parameter v b =
     addCondition \<lparr>cond_type = ''parameter_value'', cond_pattern = None, cond_operator = None,
                   cond_value = Some v, cond_parameter = Some parameter\<rparr> b"

definition whenCondition :: "policy_condition \<Rightarrow> security_policy \<Rightarrow> security_policy" where
  "whenCondition condition b = addCondition condition b"

text \<open>\<open>reason || fallback\<close>: a reason that is missing or empty gives way to the fallback.\<close>

definition reason_or :: "string option \<Rightarrow> string \<Rightarrow> string" where
  "reason_or r fallback = (case r of None \<Rightarrow> fallback | Some t \<Rightarrow> if t = [] then fallback else t)"

definition allow :: "string option \<Rightarrow> security_policy \<Rightarrow> security_policy" where
  "allow r b =
     b\<lparr>policy_action := Some ''allow'',
       policy_reason := Some (reason_or r ''Operation allowed by policy'')\<rparr>"

definition deny :: "string option \<Rightarrow> security_policy \<Rightarrow> security_policy" where
  "deny r b =
     b\<lparr>policy_action := Some ''deny'',
       policy_reason := Some (reason_or r ''Operation denied by policy'')\<rparr>"

definition transformToReadOnly :: "string option \<Rightarrow> security_policy \<Rightarrow> security_policy" where
  "transformToReadOnly r b =
     b\<lparr>policy_action := Some ''transform'',
       policy_reason := Some (reason_or r ''Operation transformed to read-only for safety''),
       policy_transformation :=
         Some \<lparr>trans_type = ''read_only'', remove_parameters = None, anonymize_parameters = None\<rparr>\<rparr>"

definition transformFilterParameters ::
  "string list \<Rightarrow> string option \<Rightarrow> security_policy \<Rightarrow> security_policy" where
  "transformFilterParameters parametersToRemove r b =
     b\<lparr>policy_action := Some ''transform'',
       policy_reason := Some (reason_or r ''Sensitive parameters filtered for safety''),
       policy_transformation :=
         Some \<lparr>trans_type = ''parameter_filter'', remove_parameters = Some parametersToRemove,
               anonymize_parameters = None\<rparr>\<rparr>"

definition transformAnonymizeParameters ::
  "string list \<Rightarrow> string option \<Rightarrow> security_policy \<Rightarrow> security_policy" where
  "transformAnonymizeParameters parametersToAnonymize r b =
     b\<lparr>policy_action := Some ''transform'',
       policy_reason := Some (reason_or r ''Sensitive parameters anonymized for safety''),
       policy_transformation :=
         Some \<lparr>trans_type = ''parameter_anonymize'', remove_parameters = None,
               anonymize_parameters = Some parametersToAnonymize\<rparr>\<rparr>"

definition transformWith ::
  "policy_transformation \<Rightarrow> string option \<Rightarrow> security_policy \<Rightarrow> security_policy" where
  "transformWith transformation r b =
     b\<lparr>policy_action := Some ''transform'',
       policy_reason := Some (reason_or r ''Operation transformed by policy''),
       policy_transformation := Some transformation\<rparr>"

text \<open>A field is falsy when it is not set or is the empty string.\<close>

definition falsy :: "string option \<Rightarrow> bool" where
  "falsy v = (v = None \<or> v = Some [])"

definition validatePolicy :: "security_policy \<Rightarrow> thrown option" where
  "validatePolicy b =
     (if falsy (policy_name b) then
        Some (JsError TealTigerValidationError (Some ''VALIDATION_ERROR'') ''Policy name is required'' None)
      else if falsy (policy_action b) then
        Some (JsError TealTigerValidationError (Some ''VALIDATION_ERROR'')
               ''Policy action is required (allow, deny, or transform)'' None)
      else if falsy (policy_reason b) then
        Some (JsError TealTigerValidationError (Some ''VALIDATION_ERROR'') ''Policy reason is required'' None)
      else if policy_conditions b = None \<or> policy_conditions b = Some [] then
        Some (JsError TealTigerValidationError (Some ''VALIDATION_ERROR'')
               ''Policy must have at least one condition'' None)
      else if policy_action b = Some ''transform'' \<and> policy_transformation b = None then
        Some (JsError TealTigerValidationError (Some ''VALIDATION_ERROR'')
               ''Transform action requires a transformation definition'' None)
      else None)"

definition build :: "security_policy \<Rightarrow> thrown + security_policy" where
  "build b = (case validatePolicy b of Some e \<Rightarrow> Inl e | None \<Rightarrow> Inr b)"

text \<open>
  A chain of builder calls, as data: each call is applied to the builder the previous
  one returned, and the chain ends where a call throws.
\<close>

datatype builder_call =
    Name string
  | Description string
  | Priority jsnumber
  | WhenToolName string
  | WhenRiskLevel string string
  | WhenAgentId string
  | WhenParameterExists string
  | WhenParameterEquals string string
  | WhenCondition policy_condition
  | Allow "string option"
  | Deny "string option"
  | TransformToReadOnly "string option"
  | TransformFilterParameters "string list" "string option"
  | TransformAnonymizeParameters "string list" "string option"
  | TransformWith policy_transformation "string option"

fun apply_call :: "builder_call \<Rightarrow> security_policy \<Rightarrow> thrown + security_policy" where
  "apply_call (Name n) b = PolicyBuilder_name n b"
| "apply_call (Description d) b = Inr (PolicyBuilder_description d b)"
| "apply_call (Priority p) b = PolicyBuilder_priority p b"
| "apply_call (WhenToolName p) b = Inr (whenToolName p b)"
| "apply_call (WhenRiskLevel operator level) b = Inr (whenRiskLevel operator level b)"
| "apply_call (WhenAgentId p) b = Inr (whenAgentId p b)"
| "apply_call (WhenParameterExists p) b = Inr (whenParameterExists p b)"
| "apply_call (WhenParameterEquals p v) b = Inr (whenParameterEquals p v b)"
| "apply_call (WhenCondition c) b = Inr (whenCondition c b)"
| "apply_call (Allow r) b = Inr (allow r b)"
| "apply_call (Deny r) b = Inr (deny r b)"
| "apply_call (TransformToReadOnly r) b = Inr (transformToReadOnly r b)"
| "apply_call (TransformFilterParameters ps r) b = Inr (transformFilterParameters ps r b)"
| "apply_call (TransformAnonymizeParameters ps r) b = Inr (transformAnonymizeParameters ps r b)"
| "apply_call (TransformWith t r) b = Inr (transformWith t r b)"

fun apply_calls :: "builder_call list \<Rightarrow> security_policy \<Rightarrow> thrown + security_policy" where
  "apply_calls [] b = Inr b"
| "apply_calls (c # cs) b = (case apply_call c b of Inl e \<Rightarrow> Inl e | Inr b' \<Rightarrow> apply_calls cs b')"

definition build_chain :: "builder_call list \<Rightarrow> thrown + security_policy" where
  "build_chain cs = (case apply_calls cs createPolicy of Inl e \<Rightarrow> Inl e | Inr b \<Rightarrow> build b)"

section \<open>TealAzureOpenAI: deployment names\<close>

text \<open>\<open>mapDeploymentToModel\<close> of the Azure client, branch by branch.\<close>

definition mapDeploymentToModel :: "string \<Rightarrow> string" where
  "mapDeploymentToModel deployment =
     (let lowerDeployment = toLowerCase deployment
      in if str_includes lowerDeployment ''gpt-4-32k'' then ''gpt-4-32k''
         else if str_includes lowerDeployment ''gpt-4-turbo'' then ''gpt-4-turbo''
         else if str_includes lowerDeployment ''gpt-4'' then ''gpt-4''
         else if str_includes lowerDeployment ''gpt-35-turbo-16k''
                 \<or> str_includes lowerDeployment ''gpt-3.5-turbo-16k'' then ''gpt-3.5-turbo-16k''
         else if str_includes lowerDeployment ''gpt-35-turbo''
                 \<or> str_includes lowerDeployment ''gpt-3.5-turbo'' then ''gpt-3.5-turbo''
         else ''gpt-3.5-turbo'')"

text \<open>
  The mapping as the specification words it: an ordered table of substring patterns,
  each row naming the model it stands for; the first row with a matching pattern wins,
  and an unrecognised name falls back to the default model.
\<close>

definition deployment_patterns :: "(string list \<times> string) list" where
  "deployment_patterns =
     [([''gpt-4-32k''], ''gpt-4-32k''),
      ([''gpt-4-turbo''], ''gpt-4-turbo''),
      ([''gpt-4''], ''gpt-4''),
      ([''gpt-35-turbo-16k'', ''gpt-3.5-turbo-16k''], ''gpt-3.5-turbo-16k''),
      ([''gpt-35-turbo'', ''gpt-3.5-turbo''], ''gpt-3.5-turbo'')]"

fun first_matching_model :: "(string list \<times> string) list \<Rightarrow> string \<Rightarrow> string" where
  "first_matching_model [] name = ''gpt-3.5-turbo''"
| "first_matching_model ((pats, model) # rows) name =
     (if list_ex (str_includes name) pats then model else first_matching_model rows name)"

section \<open>Vocabulary of the properties\<close>

subsection \<open>What a call obtains from the remote authority\<close>

text \<open>
  The response and the decision that one call of \<open>executeTool\<close> obtains: none
  when validation fails, when the transport throws or when the response reports no
  success. \<open>evaluated_state\<close> is the state right after \<open>updateStatistics\<close>.
\<close>

definition obtained_response ::
  "tealtiger_config \<Rightarrow> call_env \<Rightarrow> string \<Rightarrow> jsvalue \<Rightarrow> security_context option
     \<Rightarrow> security_evaluation_response option" where
  "obtained_response config env toolName parameters context =
     (if validateToolName toolName = None \<and> validateToolParameters parameters = None then
        (case env_evaluateSecurity env
                \<lparr>req_agentId = agentId config, req_toolName = toolName,
                 req_parameters = parameters, req_context = context\<rparr> of
           Inl e \<Rightarrow> None
         | Inr response \<Rightarrow> if resp_success response then Some response else None)
      else None)"

definition obtained_decision ::
  "tealtiger_config \<Rightarrow> call_env \<Rightarrow> string \<Rightarrow> jsvalue \<Rightarrow> security_context option
     \<Rightarrow> security_decision option" where
  "obtained_decision config env toolName parameters context =
     (case obtained_response config env toolName parameters context of
        None \<Rightarrow> None
      | Some response \<Rightarrow> resp_decision response)"

definition evaluated_state ::
  "tealtiger_config \<Rightarrow> call_env \<Rightarrow> string \<Rightarrow> jsvalue \<Rightarrow> security_context option
     \<Rightarrow> security_decision \<Rightarrow> sdk_state \<Rightarrow> sdk_state" where
  "evaluated_state config env toolName parameters context decision s =
     s\<lparr>evaluate_calls := evaluate_calls s @
           [\<lparr>req_agentId = agentId config, req_toolName = toolName,
             req_parameters = parameters, req_context = context\<rparr>],
       statistics := updateStatistics decision (env_now_evaluated env - env_now_start env)
                       (statistics s)\<rparr>"

subsection \<open>Parameter maps that bear a function or a symbol\<close>

text \<open>
  The condition in the words of the specification: a function or a symbol occurs in
  the value, at any depth through nested objects and arrays. \<open>is_request_error\<close>
  recognises the exception of input validation.
\<close>

fun bears_function_or_symbol :: "jsvalue \<Rightarrow> bool"
  and entries_bear_function_or_symbol :: "(string \<times> jsvalue) list \<Rightarrow> bool"
  and items_bear_function_or_symbol :: "jsvalue list \<Rightarrow> bool"
where
  "bears_function_or_symbol JFunction = True"
| "bears_function_or_symbol JSymbol = True"
| "bears_function_or_symbol (JObj kvs) = entries_bear_function_or_symbol kvs"
| "bears_function_or_symbol (JArr vs) = items_bear_function_or_symbol vs"
| "bears_function_or_symbol JUndefined = False"
| "bears_function_or_symbol JNull = False"
| "bears_function_or_symbol (JBool b) = False"
| "bears_function_or_symbol (JNum n) = False"
| "bears_function_or_symbol (JStr s) = False"
| "entries_bear_function_or_symbol [] = False"
| "entries_bear_function_or_symbol ((k, v) # rest) =
     (bears_function_or_symbol v \<or> entries_bear_function_or_symbol rest)"
| "items_bear_function_or_symbol [] = False"
| "items_bear_function_or_symbol (v # rest) =
     (bears_function_or_symbol v \<or> items_bear_function_or_symbol rest)"

definition is_request_error :: "thrown \<Rightarrow> bool" where
  "is_request_error e =
     (case e of
        JsError cls c m d \<Rightarrow> cls = TealTigerValidationError \<and> c = Some ''INVALID_REQUEST''
      | JsThrown v \<Rightarrow> False)"

subsection \<open>Runs of calls\<close>

text \<open>
  One call of \<open>executeTool\<close> as data, and a run of calls one after the other on the
  same client: each call starts in the state the previous one left.
\<close>

record 'a tool_call =
  arg_env :: call_env
  arg_toolName :: string
  arg_parameters :: jsvalue
  arg_context :: "security_context option"
  arg_executor :: "'a tool_executor option"

definition execute_call :: "tealtiger_config \<Rightarrow> 'a tool_call \<Rightarrow> sdk_state \<Rightarrow> sdk_state" where
  "execute_call config c s =
     snd (executeTool config (arg_env c) (arg_toolName c) (arg_parameters c) (arg_context c)
            (arg_executor c) s)"

fun executeTool_sequence :: "tealtiger_config \<Rightarrow> 'a tool_call list \<Rightarrow> sdk_state \<Rightarrow> sdk_state" where
  "executeTool_sequence config [] s = s"
| "executeTool_sequence config (c # cs) s = executeTool_sequence config cs (execute_call config c s)"

text \<open>
  The outcome of a call, read off what it obtains: allowed, denied or transformed by the
  action of the decision; \<open>OtherDecision\<close> when the response reports success with an
  action outside the three or with no decision; \<open>Unanswered\<close> when no successful
  response is obtained.
\<close>

datatype call_outcome = Allowed | Denied | Transformed | OtherDecision | Unanswered

definition outcome_of :: "tealtiger_config \<Rightarrow> 'a tool_call \<Rightarrow> call_outcome" where
  "outcome_of config c =
     (case obtained_response config (arg_env c) (arg_toolName c) (arg_parameters c) (arg_context c) of
        None \<Rightarrow> Unanswered
      | Some response \<Rightarrow>
          (case resp_decision response of
             None \<Rightarrow> OtherDecision
           | Some decision \<Rightarrow>
               if dec_action decision = ''allow'' then Allowed
               else if dec_action decision = ''deny'' then Denied
               else if dec_action decision = ''transform'' then Transformed
               else OtherDecision))"

subsection \<open>Builder chains\<close>

text \<open>What the chains of builder calls keep true of the builder.\<close>

definition builder_invariant :: "security_policy \<Rightarrow> bool" where
  "builder_invariant b =
     (policy_name b \<noteq> Some []
      \<and> policy_conditions b \<noteq> None
      \<and> policy_action b \<noteq> Some []
      \<and> policy_reason b \<noteq> Some []
      \<and> (policy_action b \<noteq> None \<longrightarrow> policy_reason b \<noteq> None)
      \<and> (policy_action b = Some ''transform'' \<longrightarrow> policy_transformation b \<noteq> None))"

subsection \<open>Redaction in the words of the specification\<close>

text \<open>
  Redaction in the words of the specification: \<open>null\<close> and \<open>undefined\<close> become the
  marker, the value under a sensitive key becomes the marker, objects and arrays are
  redacted entry by entry and item by item, and every other value stays as it is.
\<close>

fun redacted_value :: "jsvalue \<Rightarrow> jsvalue"
  and redacted_entries :: "(string \<times> jsvalue) list \<Rightarrow> (string \<times> jsvalue) list"
  and redacted_items :: "jsvalue list \<Rightarrow> jsvalue list"
where
  "redacted_value JNull = REDACTED"
| "redacted_value JUndefined = REDACTED"
| "redacted_value (JArr vs) = JArr (redacted_items vs)"
| "redacted_value (JObj kvs) = JObj (redacted_entries kvs)"
| "redacted_value (JBool b) = JBool b"
| "redacted_value (JNum n) = JNum n"
| "redacted_value (JStr s) = JStr s"
| "redacted_value JFunction = JFunction"
| "redacted_value JSymbol = JSymbol"
| "redacted_entries [] = []"
| "redacted_entries ((key, v) # rest) =
     (key, if isSensitive key then REDACTED else redacted_value v) # redacted_entries rest"
| "redacted_items [] = []"
| "redacted_items (v # rest) = redacted_value v # redacted_items rest"

text \<open>A value in which no object, at any depth, has an entry under the key \<open>__proto__\<close>.\<close>

fun proto_free :: "jsvalue \<Rightarrow> bool"
  and proto_free_entries :: "(string \<times> jsvalue) list \<Rightarrow> bool"
  and proto_free_items :: "jsvalue list \<Rightarrow> bool"
where
  "proto_free (JArr vs) = proto_free_items vs"
| "proto_free (JObj kvs) = proto_free_entries kvs"
| "proto_free JNull = True"
| "proto_free JUndefined = True"
| "proto_free (JBool b) = True"
| "proto_free (JNum n) = True"
| "proto_free (JStr s) = True"
| "proto_free JFunction = True"
| "proto_free JSymbol = True"
| "proto_free_entries [] = True"
| "proto_free_entries ((key, v) # rest) =
     (key \<noteq> ''__proto__'' \<and> proto_free v \<and> proto_free_entries rest)"
| "proto_free_items [] = True"
| "proto_free_items (v # rest) = (proto_free v \<and> proto_free_items rest)"

section \<open>Example inputs\<close>

text \<open>
  The scenario of the end-to-end tests: agent test-agent, tool test-tool, one parameter,
  and a transport that answers every request with the same response.
\<close>

definition example_config :: tealtiger_config where
  "example_config =
     \<lparr>apiKey = Some ''test-api-key'', ssaUrl = Some ''https://test-ssa.example.com'',
      agentId = Some ''test-agent'', timeout = Some (Fin 5000), retries = Some (Fin 3),
      debug = Some False, headers = Some []\<rparr>"

definition example_parameters :: jsvalue where
  "example_parameters = JObj [(''param1'', JStr ''value1'')]"

definition example_request :: "jsvalue \<Rightarrow> tool_execution_request" where
  "example_request parameters =
     \<lparr>req_agentId = Some ''test-agent'', req_toolName = ''test-tool'',
      req_parameters = parameters, req_context = None\<rparr>"

definition example_rewritten :: tool_execution_request where
  "example_rewritten =
     \<lparr>req_agentId = Some ''test-agent'', req_toolName = ''file-read'',
      req_parameters = JObj [(''path'', JStr ''/tmp/report'')], req_context = None\<rparr>"

definition example_decision ::
  "string \<Rightarrow> string \<Rightarrow> string \<Rightarrow> tool_execution_request option \<Rightarrow> security_decision" where
  "example_decision act why risk rewritten =
     \<lparr>dec_requestId = ''req-1'', dec_agentId = Some ''test-agent'', dec_toolName = ''test-tool'',
      dec_action = act, dec_reason = why, dec_riskLevel = risk,
      dec_transformedRequest = rewritten, dec_timestamp = ''2024-01-01T00:00:00.000Z'',
      dec_metadata = None\<rparr>"

definition allow_decision :: security_decision where
  "allow_decision = example_decision ''allow'' ''Tool is safe'' ''low'' None"

definition deny_decision :: security_decision where
  "deny_decision = example_decision ''deny'' ''Too risky'' ''critical'' None"

definition transform_decision :: security_decision where
  "transform_decision =
     example_decision ''transform'' ''Write turned into read'' ''medium'' (Some example_rewritten)"

definition bare_transform_decision :: security_decision where
  "bare_transform_decision = example_decision ''transform'' ''Write turned into read'' ''medium'' None"

definition decided :: "security_decision \<Rightarrow> thrown + security_evaluation_response" where
  "decided d = Inr \<lparr>resp_success = True, resp_decision = Some d, resp_error = None\<rparr>"

definition example_env :: "(thrown + security_evaluation_response) \<Rightarrow> call_env" where
  "example_env answer =
     \<lparr>env_evaluateSecurity = (\<lambda>request. answer), env_now_start = 1000, env_now_evaluated = 1025,
      env_now_failed = 1030, env_iso_failed = ''2024-01-01T00:00:01.030Z''\<rparr>"

definition echo_executor :: "jsvalue tool_executor" where
  "echo_executor name params = Inr (JObj [(''tool'', JStr name), (''params'', params)])"

definition failing_executor :: "jsvalue tool_executor" where
  "failing_executor name params = Inl (JsError PlainError None ''boom'' None)"

definition function_parameters :: jsvalue where
  "function_parameters = JObj [(''validParam'', JStr ''value''), (''callback'', JFunction)]"

definition nested_symbol_entries :: "(string \<times> jsvalue) list" where
  "nested_symbol_entries =
     [(''validParam'', JStr ''value''),
      (''options'', JObj [(''tags'', JArr [JNum (Fin 1), JSymbol])])]"

definition callback_error :: thrown where
  "callback_error =
     JsError TealTigerValidationError (Some ''INVALID_REQUEST'')
       ''Tool parameters cannot contain functions at path: callback''
       (Some [(''path'', DStr ''callback''), (''type'', DStr ''function'')])"

definition example_call :: "(thrown + security_evaluation_response) \<Rightarrow> jsvalue \<Rightarrow> jsvalue tool_call" where
  "example_call answer parameters =
     \<lparr>arg_env = example_env answer, arg_toolName = ''test-tool'', arg_parameters = parameters,
      arg_context = None, arg_executor = Some echo_executor\<rparr>"

definition example_calls :: "jsvalue tool_call list" where
  "example_calls =
     [example_call (decided allow_decision) example_parameters,
      example_call (decided deny_decision) example_parameters,
      example_call (decided allow_decision) function_parameters,
      example_call (decided transform_decision) example_parameters,
      example_call (decided allow_decision) example_parameters]"

definition stale_chain :: "builder_call list" where
  "stale_chain =
     [Name ''safe-writes'', WhenToolName ''*write*'', TransformToReadOnly None, Deny None]"

text \<open>
  A stand-in for the platform's URL parser, enough for the example inputs: it reads the
  scheme off the front of the string.
\<close>

definition example_url_protocol :: "string \<Rightarrow> string option" where
  "example_url_protocol url =
     (if prefix ''https://'' url then Some ''https:''
      else if prefix ''http://'' url then Some ''http:''
      else None)"

definition example_user_config :: "string \<Rightarrow> user_config" where
  "example_user_config key =
     \<lparr>user_apiKey = Defined key, user_ssaUrl = Defined ''https://test-ssa.example.com'',
      user_agentId = Defined ''test-agent'', user_timeout = Defined (Fin 10000),
      user_retries = Absent, user_debug = Defined True, user_headers = Absent\<rparr>"

definition example_built_config :: "string \<Rightarrow> tealtiger_config" where
  "example_built_config key =
     \<lparr>apiKey = Some key, ssaUrl = Some ''https://test-ssa.example.com'',
      agentId = Some ''test-agent'', timeout = Some (Fin 10000), retries = Some (Fin 3),
      debug = Some True, headers = Some []\<rparr>"

definition example_secrets :: "(string \<times> jsvalue) list" where
  "example_secrets =
     [(''note'', JNull),
      (''PASSWORD'', JStr ''secret''),
      (''count'', JNum (Fin 3)),
      (''items'', JArr [JObj [(''token'', JStr ''t-1''), (''name'', JStr ''item1''), (''extra'', JUndefined)]])]"

definition test_config :: "string option \<Rightarrow> string option \<Rightarrow> jsnumber option \<Rightarrow> jsnumber option \<Rightarrow> tealtiger_config" where
  "test_config key url t r =
     \<lparr>apiKey = key, ssaUrl = url, agentId = None, timeout = t, retries = r, debug = None,
      headers = None\<rparr>"

section \<open>Properties\<close>

subsection \<open>Strings\<close>

lemma str_includes_iff: "str_includes s p \<longleftrightarrow> (\<exists>a c. s = a @ p @ c)"
  by (simp add: str_includes_def sublist_def)

lemma str_includes_self: "str_includes s s"
  by (simp add: str_includes_def)

lemma str_includes_Cons: "str_includes s p \<Longrightarrow> str_includes (c # s) p"
  by (simp add: str_includes_def sublist_Cons_right)

subsection \<open>Deployment names\<close>

text \<open>
  C9. For every Azure deployment name, the deployment-to-model mapping tests the
  lowercased name for the substring patterns gpt-4-32k, gpt-4-turbo, gpt-4,
  gpt-35-turbo-16k or gpt-3.5-turbo-16k, gpt-35-turbo or gpt-3.5-turbo, in that order,
  returns the model of the first pattern that matches, and returns gpt-3.5-turbo when
  none does.
\<close>

theorem mapDeploymentToModel_first_match:
  "mapDeploymentToModel deployment
     = first_matching_model deployment_patterns (toLowerCase deployment)"
  by (simp add: mapDeploymentToModel_def deployment_patterns_def Let_def)

subsection \<open>The try block and the catch block of executeTool\<close>

lemma executeTool_try_decided:
  assumes "obtained_decision config env toolName parameters context = Some decision"
  shows "executeTool_try config env toolName parameters context toolExecutor s =
     (let s2 = evaluated_state config env toolName parameters context decision s
      in if dec_action decision = ''allow'' then
           (case handleAllowDecision toolName parameters decision toolExecutor s2 of
              (r, s3) \<Rightarrow> (Inr r, s3))
         else if dec_action decision = ''deny'' then (Inr (handleDenyDecision decision), s2)
         else if dec_action decision = ''transform'' then
           (case handleTransformDecision decision toolExecutor s2 of (r, s3) \<Rightarrow> (Inr r, s3))
         else
           (Inl (JsError TealTigerValidationError (Some ''POLICY_ERROR'')
                  (''Unknown security action: '' @ dec_action decision)
                  (Some [(''decision'', DDecision decision)])), s2))"
  using assms
  by (auto simp add: executeTool_try_def obtained_decision_def obtained_response_def
      evaluated_state_def Let_def split: option.splits sum.splits if_splits)

lemma executeTool_try_undecided:
  assumes "obtained_response config env toolName parameters context = Some response"
    and "resp_decision response = None"
  shows "executeTool_try config env toolName parameters context toolExecutor s =
     (Inl undefined_decision_error,
      s\<lparr>evaluate_calls := evaluate_calls s @
           [\<lparr>req_agentId = agentId config, req_toolName = toolName,
             req_parameters = parameters, req_context = context\<rparr>],
        statistics := (statistics s)\<lparr>totalRequests := totalRequests (statistics s) + 1\<rparr>\<rparr>)"
  using assms
  by (auto simp add: executeTool_try_def obtained_response_def Let_def
      split: option.splits sum.splits if_splits)

lemma executeTool_try_unanswered:
  assumes "obtained_response config env toolName parameters context = None"
  shows "\<exists>e s1. executeTool_try config env toolName parameters context toolExecutor s = (Inl e, s1)
           \<and> statistics s1 = statistics s \<and> executor_calls s1 = executor_calls s"
  using assms
  by (auto simp add: executeTool_try_def obtained_response_def Let_def
      split: option.splits sum.splits if_splits)

lemma executeTool_try_errorCount:
  "errorCount (statistics (snd (executeTool_try config env toolName parameters context toolExecutor s)))
     = errorCount (statistics s)"
  by (auto simp add: executeTool_try_def Let_def updateStatistics_def handleAllowDecision_def
      handleTransformDecision_def split: option.splits sum.splits if_splits prod.splits)

lemma executeTool_try_throws_iff:
  "(\<exists>error s1. executeTool_try config env toolName parameters context toolExecutor s = (Inl error, s1))
     \<longleftrightarrow>
   (case obtained_decision config env toolName parameters context of
      None \<Rightarrow> True
    | Some d \<Rightarrow> dec_action d \<noteq> ''allow'' \<and> dec_action d \<noteq> ''deny'' \<and> dec_action d \<noteq> ''transform'')"
proof (cases "obtained_decision config env toolName parameters context")
  case None
  show ?thesis
  proof (cases "obtained_response config env toolName parameters context")
    case unanswered: None
    from executeTool_try_unanswered [OF unanswered, of toolExecutor s] None show ?thesis by auto
  next
    case (Some response)
    with None have "resp_decision response = None" by (simp add: obtained_decision_def)
    from executeTool_try_undecided [OF Some this, of toolExecutor s] None show ?thesis by simp
  qed
next
  case (Some d)
  then show ?thesis
    by (auto simp add: executeTool_try_decided Let_def split: prod.splits)
qed

lemma executeTool_caught:
  assumes "executeTool_try config env toolName parameters context toolExecutor s = (Inl error, s1)"
  shows "executeTool config env toolName parameters context toolExecutor s =
           (Inr \<lparr>res_success = False, res_data = None,
                 res_securityDecision = error_placeholder config env toolName,
                 res_error = Some (error_bundle error)\<rparr>,
            s1\<lparr>statistics := (statistics s1)\<lparr>errorCount := errorCount (statistics s) + 1\<rparr>\<rparr>)"
proof -
  have "errorCount (statistics s1) = errorCount (statistics s)"
    using executeTool_try_errorCount [of config env toolName parameters "context" toolExecutor s] assms
    by simp
  with assms show ?thesis
    by (simp add: executeTool_def executeTool_catch_def)
qed

lemma executeTool_returned:
  assumes "executeTool_try config env toolName parameters context toolExecutor s = (Inr r, s1)"
  shows "executeTool config env toolName parameters context toolExecutor s = (Inr r, s1)"
  using assms by (simp add: executeTool_def)

lemma executeTool_total:
  "\<exists>r s'. executeTool config env toolName parameters context toolExecutor s = (Inr r, s')"
proof (cases "executeTool_try config env toolName parameters context toolExecutor s")
  case (Pair out s1)
  then show ?thesis
    by (cases out) (simp_all add: executeTool_caught executeTool_returned)
qed

lemma executeTool_executor_throws_allow:
  assumes "obtained_decision config env toolName parameters context = Some decision"
    and "dec_action decision = ''allow''"
    and "run toolName parameters = Inl error"
  shows "executeTool config env toolName parameters context (Some run) s =
           (Inr \<lparr>res_success = False, res_data = None, res_securityDecision = decision,
                 res_error = Some \<lparr>err_code = ''TOOL_EXECUTION_ERROR'',
                                   err_message = thrown_message error ''Tool execution failed'',
                                   err_details = Some [(''originalError'', DThrown error)]\<rparr>\<rparr>,
            (evaluated_state config env toolName parameters context decision s)
              \<lparr>executor_calls := executor_calls s @ [(toolName, parameters)]\<rparr>)"
  using assms
  by (simp add: executeTool_def executeTool_try_decided handleAllowDecision_def Let_def
      evaluated_state_def)

lemma executeTool_executor_throws_transform:
  assumes "obtained_decision config env toolName parameters context = Some decision"
    and "dec_action decision = ''transform''"
    and "dec_transformedRequest decision = Some transformed"
    and "run (req_toolName transformed) (req_parameters transformed) = Inl error"
  shows "executeTool config env toolName parameters context (Some run) s =
           (Inr \<lparr>res_success = False, res_data = None, res_securityDecision = decision,
                 res_error = Some \<lparr>err_code = ''TOOL_EXECUTION_ERROR'',
                                   err_message = thrown_message error ''Transformed tool execution failed'',
                                   err_details = Some [(''originalError'', DThrown error)]\<rparr>\<rparr>,
            (evaluated_state config env toolName parameters context decision s)
              \<lparr>executor_calls := executor_calls s
                   @ [(req_toolName transformed, req_parameters transformed)]\<rparr>)"
  using assms
  by (simp add: executeTool_def executeTool_try_decided handleTransformDecision_def Let_def
      evaluated_state_def)

lemma evaluated_state_errorCount:
  "errorCount (statistics (evaluated_state config env toolName parameters context decision s))
     = errorCount (statistics s)"
  by (simp add: evaluated_state_def updateStatistics_def Let_def)

subsection \<open>The example inputs\<close>

lemma validateToolName_test_tool: "validateToolName ''test-tool'' = None"
  by code_simp

lemma validateToolParameters_example: "validateToolParameters example_parameters = None"
  by (simp add: validateToolParameters_def example_parameters_def)

lemma validateToolParameters_function:
  "validateToolParameters function_parameters = Some callback_error"
  by (simp add: validateToolParameters_def function_parameters_def callback_error_def)

lemma example_obtained:
  "obtained_decision example_config (example_env (decided d)) ''test-tool'' example_parameters None
     = Some d"
  by (simp add: obtained_decision_def obtained_response_def validateToolName_test_tool
      validateToolParameters_example example_env_def decided_def)

lemma example_obtained_any:
  "validateToolParameters parameters = None \<Longrightarrow>
   obtained_decision example_config (example_env (decided d)) ''test-tool'' parameters None = Some d"
  by (simp add: obtained_decision_def obtained_response_def validateToolName_test_tool
      example_env_def decided_def)

lemma example_unanswered:
  "obtained_response example_config (example_env (decided allow_decision)) ''test-tool''
     function_parameters None = None"
  by (simp add: obtained_response_def validateToolParameters_function)

lemma show_int_1030: "show_int 1030 = ''1030''"
  by code_simp

lemma example_statistics_after_one:
  "updateStatistics (example_decision act why risk rewritten) 25 initial_statistics =
     \<lparr>totalRequests = 1,
      allowedRequests = (if act = ''allow'' then 1 else 0),
      deniedRequests = (if act = ''deny'' then 1 else 0),
      transformedRequests = (if act = ''transform'' then 1 else 0),
      averageResponseTime =
        Divide (Plus (Times (Integer 0) (Minus (Integer 1) (Integer 1))) (Integer 25)) (Integer 1),
      errorCount = 0\<rparr>"
  by (simp add: updateStatistics_def initial_statistics_def example_decision_def Let_def)

subsection \<open>Decisions are enforced\<close>

text \<open>
  C1. Whenever the remote evaluation succeeds (the inputs pass validation and the
  transport returns a response with success = true that carries a decision) and the
  decision's action is deny, the injected tool executor is not invoked, and the result
  has success = false, the error code SECURITY_DENIED, an error message that contains
  the decision's reason, and the decision itself as its security decision.
\<close>

theorem executeTool_deny:
  assumes "obtained_decision config env toolName parameters context = Some decision"
    and "dec_action decision = ''deny''"
  shows "\<exists>r e s'. executeTool config env toolName parameters context toolExecutor s = (Inr r, s')
           \<and> executor_calls s' = executor_calls s
           \<and> res_success r = False
           \<and> res_securityDecision r = decision
           \<and> res_error r = Some e
           \<and> err_code e = ''SECURITY_DENIED''
           \<and> err_message e = ''Tool execution denied: '' @ dec_reason decision
           \<and> str_includes (err_message e) (dec_reason decision)"
  using assms
  by (simp add: executeTool_def executeTool_try_decided handleDenyDecision_def Let_def
      evaluated_state_def str_includes_Cons str_includes_self)

text \<open>
  The deny scenario of the end-to-end tests satisfies the hypotheses of C1.
\<close>

theorem executeTool_deny_witness:
  "obtained_decision example_config (example_env (decided deny_decision)) ''test-tool''
       example_parameters None = Some deny_decision
   \<and> dec_action deny_decision = ''deny''
   \<and> (\<exists>r e s'. executeTool example_config (example_env (decided deny_decision))
             ''test-tool'' example_parameters None (Some echo_executor) initial_state = (Inr r, s')
           \<and> executor_calls s' = executor_calls initial_state
           \<and> res_success r = False
           \<and> res_securityDecision r = deny_decision
           \<and> res_error r = Some e
           \<and> err_code e = ''SECURITY_DENIED''
           \<and> err_message e = ''Tool execution denied: '' @ dec_reason deny_decision
           \<and> str_includes (err_message e) (dec_reason deny_decision))"
proof -
  have a: "dec_action deny_decision = ''deny''"
    by (simp add: deny_decision_def example_decision_def)
  show ?thesis
    using example_obtained [of deny_decision] a
      executeTool_deny [OF example_obtained a, of "Some echo_executor" initial_state]
    by blast
qed

text \<open>
  C4. Whenever the remote evaluation succeeds, the decision's action is transform and
  the decision carries a transformed request, the injected executor is invoked exactly
  once, with the tool name and the parameters of the transformed request (the log of
  executor invocations grows by that one entry); when the executor returns, the result
  has success = true and the executor's output as its data.
\<close>

theorem executeTool_transform:
  assumes "obtained_decision config env toolName parameters context = Some decision"
    and "dec_action decision = ''transform''"
    and "dec_transformedRequest decision = Some transformed"
  shows "\<exists>r s'. executeTool config env toolName parameters context (Some run) s = (Inr r, s')
           \<and> executor_calls s' =
               executor_calls s @ [(req_toolName transformed, req_parameters transformed)]
           \<and> res_securityDecision r = decision
           \<and> (\<forall>d. run (req_toolName transformed) (req_parameters transformed) = Inr d
                  \<longrightarrow> res_success r \<and> res_data r = Some d \<and> res_error r = None)"
  using assms
  by (auto simp add: executeTool_def executeTool_try_decided handleTransformDecision_def Let_def
      evaluated_state_def split: sum.splits)

text \<open>
  A transform decision that rewrites test-tool into file-read, with an executor that
  echoes what it is called with.
\<close>

theorem executeTool_transform_witness:
  "obtained_decision example_config (example_env (decided transform_decision)) ''test-tool''
       example_parameters None = Some transform_decision
   \<and> dec_action transform_decision = ''transform''
   \<and> dec_transformedRequest transform_decision = Some example_rewritten
   \<and> echo_executor ''file-read'' (JObj [(''path'', JStr ''/tmp/report'')])
       = Inr (JObj [(''tool'', JStr ''file-read''), (''params'', JObj [(''path'', JStr ''/tmp/report'')])])
   \<and> (\<exists>r s'. executeTool example_config (example_env (decided transform_decision))
             ''test-tool'' example_parameters None (Some echo_executor) initial_state = (Inr r, s')
           \<and> executor_calls s' = [(''file-read'', JObj [(''path'', JStr ''/tmp/report'')])]
           \<and> res_securityDecision r = transform_decision
           \<and> res_success r
           \<and> res_data r
               = Some (JObj [(''tool'', JStr ''file-read''), (''params'', JObj [(''path'', JStr ''/tmp/report'')])]))"
proof -
  have a: "dec_action transform_decision = ''transform''"
    and t: "dec_transformedRequest transform_decision = Some example_rewritten"
    by (simp_all add: transform_decision_def example_decision_def)
  have x: "echo_executor (req_toolName example_rewritten) (req_parameters example_rewritten)
       = Inr (JObj [(''tool'', JStr ''file-read''), (''params'', JObj [(''path'', JStr ''/tmp/report'')])])"
    by (simp add: echo_executor_def example_rewritten_def)
  from executeTool_transform [OF example_obtained a t, of echo_executor initial_state]
  obtain r s' where
    "executeTool example_config (example_env (decided transform_decision))
             ''test-tool'' example_parameters None (Some echo_executor) initial_state = (Inr r, s')"
    "executor_calls s' = executor_calls initial_state
        @ [(req_toolName example_rewritten, req_parameters example_rewritten)]"
    "res_securityDecision r = transform_decision"
    "\<forall>d. echo_executor (req_toolName example_rewritten) (req_parameters example_rewritten) = Inr d
                  \<longrightarrow> res_success r \<and> res_data r = Some d \<and> res_error r = None"
    by blast
  with x example_obtained [of transform_decision] a t show ?thesis
    by (simp add: initial_state_def example_rewritten_def)
qed

text \<open>
  C5, as the code has it. Whenever the remote evaluation succeeds, the decision's action
  is transform and the decision carries no transformed request, the executor is not
  invoked and the result is a failure that carries the decision, with the error code
  TRANSFORMATION_ERROR: a code of its own, neither the POLICY_ERROR that an unknown
  action is reported with nor the SECURITY_DENIED of a security denial.
\<close>

theorem executeTool_transform_without_request:
  assumes "obtained_decision config env toolName parameters context = Some decision"
    and "dec_action decision = ''transform''"
    and "dec_transformedRequest decision = None"
  shows "\<exists>r e s'. executeTool config env toolName parameters context toolExecutor s = (Inr r, s')
           \<and> executor_calls s' = executor_calls s
           \<and> res_success r = False
           \<and> res_data r = None
           \<and> res_securityDecision r = decision
           \<and> res_error r = Some e
           \<and> err_code e = ''TRANSFORMATION_ERROR''
           \<and> err_code e \<noteq> ''POLICY_ERROR''
           \<and> err_code e \<noteq> ''SECURITY_DENIED''
           \<and> err_message e = ''Transform decision provided but no transformed request available''"
  using assms
  by (simp add: executeTool_def executeTool_try_decided handleTransformDecision_def Let_def
      evaluated_state_def)

text \<open>
  C5 as stated fails on the classification: for a transform decision without a
  transformed request the error code of the result is TRANSFORMATION_ERROR, which is
  not the code POLICY_ERROR of a policy error.
\<close>

theorem transformation_error_counterexample:
  "dec_action bare_transform_decision = ''transform''
   \<and> dec_transformedRequest bare_transform_decision = None
   \<and> fst (executeTool example_config (example_env (decided bare_transform_decision)) ''test-tool''
            example_parameters None (Some echo_executor) initial_state)
       = Inr \<lparr>res_success = False, res_data = None,
              res_securityDecision = bare_transform_decision,
              res_error = Some \<lparr>err_code = ''TRANSFORMATION_ERROR'',
                err_message = ''Transform decision provided but no transformed request available'',
                err_details = None\<rparr>\<rparr>
   \<and> ''TRANSFORMATION_ERROR'' \<noteq> ''POLICY_ERROR''"
proof -
  have a: "dec_action bare_transform_decision = ''transform''"
    and t: "dec_transformedRequest bare_transform_decision = None"
    by (simp_all add: bare_transform_decision_def example_decision_def)
  have "fst (executeTool example_config (example_env (decided bare_transform_decision)) ''test-tool''
            example_parameters None (Some echo_executor) initial_state)
       = Inr \<lparr>res_success = False, res_data = None,
              res_securityDecision = bare_transform_decision,
              res_error = Some \<lparr>err_code = ''TRANSFORMATION_ERROR'',
                err_message = ''Transform decision provided but no transformed request available'',
                err_details = None\<rparr>\<rparr>"
    using example_obtained [of bare_transform_decision] a t
    by (simp add: executeTool_def executeTool_try_decided handleTransformDecision_def Let_def
        evaluated_state_def)
  with a t show ?thesis
    by simp
qed

text \<open>
  A transform decision without a transformed request satisfies the hypotheses of C5.
\<close>

theorem executeTool_transform_without_request_witness:
  "obtained_decision example_config (example_env (decided bare_transform_decision)) ''test-tool''
       example_parameters None = Some bare_transform_decision
   \<and> dec_action bare_transform_decision = ''transform''
   \<and> dec_transformedRequest bare_transform_decision = None
   \<and> (\<exists>r e s'. executeTool example_config (example_env (decided bare_transform_decision))
             ''test-tool'' example_parameters None (Some echo_executor) initial_state = (Inr r, s')
           \<and> executor_calls s' = executor_calls initial_state
           \<and> res_success r = False
           \<and> res_data r = None
           \<and> res_securityDecision r = bare_transform_decision
           \<and> res_error r = Some e
           \<and> err_code e = ''TRANSFORMATION_ERROR''
           \<and> err_code e \<noteq> ''POLICY_ERROR''
           \<and> err_code e \<noteq> ''SECURITY_DENIED''
           \<and> err_message e = ''Transform decision provided but no transformed request available'')"
proof -
  have a: "dec_action bare_transform_decision = ''transform''"
    and t: "dec_transformedRequest bare_transform_decision = None"
    by (simp_all add: bare_transform_decision_def example_decision_def)
  show ?thesis
    using example_obtained [of bare_transform_decision] a t
      executeTool_transform_without_request [OF example_obtained a t,
        of "Some echo_executor" initial_state]
    by blast
qed

subsection \<open>Exceptions are contained\<close>

text \<open>
  C2, as the code has it. \<open>executeTool\<close> never propagates an exception. An exception
  that leaves the \<open>try\<close> block is answered by a failure whose security decision is the
  deny-shaped placeholder (risk level critical, request id error- followed by the clock
  reading) and whose error bundle is taken from the exception, and the error counter
  goes up by one. The exceptions that leave the block are those of input validation and
  of the remote evaluation (a rejected call, a response without success or without a
  decision) and the one for an unknown action. An exception of the tool executor does
  not leave the block: the allow and transform handlers answer it with a
  TOOL_EXECUTION_ERROR failure that carries the remote decision, and the error counter
  stays as it was.
\<close>

theorem executeTool_contains_exceptions:
  "(\<exists>r s'. executeTool config env toolName parameters context toolExecutor s = (Inr r, s'))
   \<and> (\<forall>error s1.
         executeTool_try config env toolName parameters context toolExecutor s = (Inl error, s1) \<longrightarrow>
         (\<exists>r s'. executeTool config env toolName parameters context toolExecutor s = (Inr r, s')
            \<and> res_success r = False
            \<and> res_data r = None
            \<and> res_securityDecision r = error_placeholder config env toolName
            \<and> dec_action (res_securityDecision r) = ''deny''
            \<and> dec_riskLevel (res_securityDecision r) = ''critical''
            \<and> dec_requestId (res_securityDecision r) = ''error-'' @ show_int (env_now_failed env)
            \<and> res_error r = Some (error_bundle error)
            \<and> errorCount (statistics s') = errorCount (statistics s) + 1))
   \<and> ((\<exists>error s1.
          executeTool_try config env toolName parameters context toolExecutor s = (Inl error, s1))
        \<longleftrightarrow>
        (case obtained_decision config env toolName parameters context of
           None \<Rightarrow> True
         | Some d \<Rightarrow>
             dec_action d \<noteq> ''allow'' \<and> dec_action d \<noteq> ''deny'' \<and> dec_action d \<noteq> ''transform''))
   \<and> (\<forall>decision run error.
         obtained_decision config env toolName parameters context = Some decision
         \<and> toolExecutor = Some run
         \<and> (dec_action decision = ''allow'' \<and> run toolName parameters = Inl error
              \<or> dec_action decision = ''transform''
                \<and> (\<exists>t. dec_transformedRequest decision = Some t
                         \<and> run (req_toolName t) (req_parameters t) = Inl error)) \<longrightarrow>
         (\<exists>r e s'. executeTool config env toolName parameters context toolExecutor s = (Inr r, s')
            \<and> res_success r = False
            \<and> res_securityDecision r = decision
            \<and> res_error r = Some e
            \<and> err_code e = ''TOOL_EXECUTION_ERROR''
            \<and> err_details e = Some [(''originalError'', DThrown error)]
            \<and> errorCount (statistics s') = errorCount (statistics s)))"
proof (intro conjI allI impI)
  show "\<exists>r s'. executeTool config env toolName parameters context toolExecutor s = (Inr r, s')"
    by (rule executeTool_total)
next
  fix error s1
  assume "executeTool_try config env toolName parameters context toolExecutor s = (Inl error, s1)"
  from executeTool_caught [OF this]
  show "\<exists>r s'. executeTool config env toolName parameters context toolExecutor s = (Inr r, s')
            \<and> res_success r = False
            \<and> res_data r = None
            \<and> res_securityDecision r = error_placeholder config env toolName
            \<and> dec_action (res_securityDecision r) = ''deny''
            \<and> dec_riskLevel (res_securityDecision r) = ''critical''
            \<and> dec_requestId (res_securityDecision r) = ''error-'' @ show_int (env_now_failed env)
            \<and> res_error r = Some (error_bundle error)
            \<and> errorCount (statistics s') = errorCount (statistics s) + 1"
    by (simp add: error_placeholder_def)
next
  show "(\<exists>error s1.
          executeTool_try config env toolName parameters context toolExecutor s = (Inl error, s1))
        \<longleftrightarrow>
        (case obtained_decision config env toolName parameters context of
           None \<Rightarrow> True
         | Some d \<Rightarrow>
             dec_action d \<noteq> ''allow'' \<and> dec_action d \<noteq> ''deny'' \<and> dec_action d \<noteq> ''transform'')"
    by (rule executeTool_try_throws_iff)
next
  fix decision run error
  assume h: "obtained_decision config env toolName parameters context = Some decision
         \<and> toolExecutor = Some run
         \<and> (dec_action decision = ''allow'' \<and> run toolName parameters = Inl error
              \<or> dec_action decision = ''transform''
                \<and> (\<exists>t. dec_transformedRequest decision = Some t
                         \<and> run (req_toolName t) (req_parameters t) = Inl error))"
  then have d: "obtained_decision config env toolName parameters context = Some decision"
    and x: "toolExecutor = Some run" by simp_all
  from h consider
      (allow) "dec_action decision = ''allow''" "run toolName parameters = Inl error"
    | (transform) t where "dec_action decision = ''transform''"
        "dec_transformedRequest decision = Some t"
        "run (req_toolName t) (req_parameters t) = Inl error"
    by blast
  then show "\<exists>r e s'. executeTool config env toolName parameters context toolExecutor s = (Inr r, s')
            \<and> res_success r = False
            \<and> res_securityDecision r = decision
            \<and> res_error r = Some e
            \<and> err_code e = ''TOOL_EXECUTION_ERROR''
            \<and> err_details e = Some [(''originalError'', DThrown error)]
            \<and> errorCount (statistics s') = errorCount (statistics s)"
  proof cases
    case allow
    from executeTool_executor_throws_allow [where run = run and error = error, OF d allow] x show ?thesis
      by (simp add: evaluated_state_errorCount)
  next
    case transform
    from executeTool_executor_throws_transform [where run = run and error = error, OF d transform] x show ?thesis
      by (simp add: evaluated_state_errorCount)
  qed
qed

text \<open>
  C2 as stated fails for an exception raised by the executor: under an allow decision
  with risk level low, a throwing executor yields a failure that carries that decision,
  not a critical placeholder, and the error counter stays at 0.
\<close>

theorem executor_exception_counterexample:
  "failing_executor ''test-tool'' example_parameters = Inl (JsError PlainError None ''boom'' None)
   \<and> executeTool example_config (example_env (decided allow_decision)) ''test-tool''
         example_parameters None (Some failing_executor) initial_state
       = (Inr \<lparr>res_success = False, res_data = None, res_securityDecision = allow_decision,
               res_error = Some \<lparr>err_code = ''TOOL_EXECUTION_ERROR'', err_message = ''boom'',
                 err_details = Some [(''originalError'', DThrown (JsError PlainError None ''boom'' None))]\<rparr>\<rparr>,
          \<lparr>statistics = \<lparr>totalRequests = 1, allowedRequests = 1, deniedRequests = 0,
                          transformedRequests = 0,
                          averageResponseTime =
        Divide (Plus (Times (Integer 0) (Minus (Integer 1) (Integer 1))) (Integer 25)) (Integer 1),
                          errorCount = 0\<rparr>,
           evaluate_calls = [example_request example_parameters],
           executor_calls = [(''test-tool'', example_parameters)]\<rparr>)
   \<and> dec_action allow_decision = ''allow''
   \<and> dec_riskLevel allow_decision = ''low''"
proof -
  have a: "dec_action allow_decision = ''allow''"
    by (simp add: allow_decision_def example_decision_def)
  have x: "failing_executor ''test-tool'' example_parameters = Inl (JsError PlainError None ''boom'' None)"
    by (simp add: failing_executor_def)
  from executeTool_executor_throws_allow
    [where run = failing_executor and s = initial_state, OF example_obtained a x] a x
  show ?thesis
    by (simp add: evaluated_state_def initial_state_def example_env_def example_config_def
        example_request_def thrown_message_def allow_decision_def example_statistics_after_one)
       (simp add: example_decision_def)
qed

text \<open>
  Both kinds of exception on the example inputs: a function-valued parameter, and a
  throwing executor under an allow decision.
\<close>

theorem executeTool_contains_exceptions_witness:
  "executeTool_try example_config (example_env (decided allow_decision)) ''test-tool''
       function_parameters None (Some echo_executor) initial_state = (Inl callback_error, initial_state)
   \<and> (\<exists>r s'. executeTool example_config (example_env (decided allow_decision)) ''test-tool''
                function_parameters None (Some echo_executor) initial_state = (Inr r, s')
          \<and> res_success r = False
          \<and> dec_action (res_securityDecision r) = ''deny''
          \<and> dec_riskLevel (res_securityDecision r) = ''critical''
          \<and> dec_requestId (res_securityDecision r) = ''error-1030''
          \<and> res_error r = Some \<lparr>err_code = ''INVALID_REQUEST'',
                 err_message = ''Tool parameters cannot contain functions at path: callback'',
                 err_details = Some [(''path'', DStr ''callback''), (''type'', DStr ''function'')]\<rparr>
          \<and> errorCount (statistics s') = 1)
   \<and> obtained_decision example_config (example_env (decided allow_decision)) ''test-tool''
         example_parameters None = Some allow_decision
   \<and> failing_executor ''test-tool'' example_parameters = Inl (JsError PlainError None ''boom'' None)
   \<and> (\<exists>r e s'. executeTool example_config (example_env (decided allow_decision)) ''test-tool''
                example_parameters None (Some failing_executor) initial_state = (Inr r, s')
          \<and> res_success r = False
          \<and> res_securityDecision r = allow_decision
          \<and> res_error r = Some e
          \<and> err_code e = ''TOOL_EXECUTION_ERROR''
          \<and> errorCount (statistics s') = 0)"
proof -
  have t: "executeTool_try example_config (example_env (decided allow_decision)) ''test-tool''
       function_parameters None (Some echo_executor) initial_state = (Inl callback_error, initial_state)"
    by (simp add: executeTool_try_def validateToolName_test_tool validateToolParameters_def
        function_parameters_def callback_error_def)
  have a: "dec_action allow_decision = ''allow''"
    by (simp add: allow_decision_def example_decision_def)
  have x: "failing_executor ''test-tool'' example_parameters = Inl (JsError PlainError None ''boom'' None)"
    by (simp add: failing_executor_def)
  note main = executeTool_contains_exceptions
  from main [of example_config "example_env (decided allow_decision)" "''test-tool''"
      function_parameters None "Some echo_executor" initial_state] t
  have first: "\<exists>r s'. executeTool example_config (example_env (decided allow_decision)) ''test-tool''
                function_parameters None (Some echo_executor) initial_state = (Inr r, s')
          \<and> res_success r = False
          \<and> dec_action (res_securityDecision r) = ''deny''
          \<and> dec_riskLevel (res_securityDecision r) = ''critical''
          \<and> dec_requestId (res_securityDecision r) = ''error-1030''
          \<and> res_error r = Some \<lparr>err_code = ''INVALID_REQUEST'',
                 err_message = ''Tool parameters cannot contain functions at path: callback'',
                 err_details = Some [(''path'', DStr ''callback''), (''type'', DStr ''function'')]\<rparr>
          \<and> errorCount (statistics s') = 1"
    by (auto simp add: error_bundle_def callback_error_def thrown_message_def initial_state_def
        initial_statistics_def example_env_def show_int_1030)
  have "obtained_decision example_config (example_env (decided allow_decision)) ''test-tool''
          example_parameters None = Some allow_decision
        \<and> Some failing_executor = Some failing_executor
        \<and> (dec_action allow_decision = ''allow''
               \<and> failing_executor ''test-tool'' example_parameters
                   = Inl (JsError PlainError None ''boom'' None)
            \<or> dec_action allow_decision = ''transform''
               \<and> (\<exists>t. dec_transformedRequest allow_decision = Some t
                      \<and> failing_executor (req_toolName t) (req_parameters t)
                          = Inl (JsError PlainError None ''boom'' None)))"
    using example_obtained a x by simp
  with main [of example_config "example_env (decided allow_decision)" "''test-tool''"
      example_parameters None "Some failing_executor" initial_state]
  have "\<exists>r e s'. executeTool example_config (example_env (decided allow_decision)) ''test-tool''
                example_parameters None (Some failing_executor) initial_state = (Inr r, s')
          \<and> res_success r = False
          \<and> res_securityDecision r = allow_decision
          \<and> res_error r = Some e
          \<and> err_code e = ''TOOL_EXECUTION_ERROR''
          \<and> err_details e = Some [(''originalError'', DThrown (JsError PlainError None ''boom'' None))]
          \<and> errorCount (statistics s') = errorCount (statistics initial_state)"
    by blast
  then have second: "\<exists>r e s'. executeTool example_config (example_env (decided allow_decision)) ''test-tool''
                example_parameters None (Some failing_executor) initial_state = (Inr r, s')
          \<and> res_success r = False
          \<and> res_securityDecision r = allow_decision
          \<and> res_error r = Some e
          \<and> err_code e = ''TOOL_EXECUTION_ERROR''
          \<and> errorCount (statistics s') = 0"
    by (auto simp add: initial_state_def initial_statistics_def)
  from t first example_obtained x second show ?thesis
    by blast
qed

subsection \<open>Input validation\<close>

lemma checkValue_passes_iff:
  "(checkValue v path = None) = (\<not> bears_function_or_symbol v)"
  "(checkEntries kvs path = None) = (\<not> entries_bear_function_or_symbol kvs)"
  "(checkItems vs i path = None) = (\<not> items_bear_function_or_symbol vs)"
  by (induction v path and kvs path and vs i path rule: checkValue_checkEntries_checkItems.induct)
     (auto split: option.splits)

lemma checkValue_request_error:
  "checkValue v path = Some e \<Longrightarrow> is_request_error e"
  "checkEntries kvs path = Some e \<Longrightarrow> is_request_error e"
  "checkItems vs i path = Some e \<Longrightarrow> is_request_error e"
  by (induction v path and kvs path and vs i path rule: checkValue_checkEntries_checkItems.induct)
     (auto simp add: is_request_error_def split: option.splits)

lemma checkParameters_passes_iff:
  "(checkParameters kvs = None) = (\<not> entries_bear_function_or_symbol kvs)"
proof (induction kvs rule: checkParameters.induct)
  case 1
  show ?case by simp
next
  case (2 key v rest)
  have "(checkValue v key = None) = (\<not> bears_function_or_symbol v)"
    by (rule checkValue_passes_iff)
  with 2 show ?case
    by (cases "checkValue v key") auto
qed

lemma checkParameters_request_error:
  "checkParameters kvs = Some e \<Longrightarrow> is_request_error e"
  by (induction kvs rule: checkParameters.induct)
     (auto simp add: checkValue_request_error split: option.splits)

lemma validateToolName_request_error:
  "validateToolName toolName = Some e \<Longrightarrow> is_request_error e"
  by (auto simp add: validateToolName_def is_request_error_def split: if_splits)

lemma validateToolParameters_request_error:
  "validateToolParameters parameters = Some e \<Longrightarrow> is_request_error e"
  by (cases parameters)
     (auto simp add: validateToolParameters_def is_request_error_def
        dest: checkParameters_request_error)

lemma validateToolParameters_object:
  "(validateToolParameters (JObj kvs) = None) = (\<not> entries_bear_function_or_symbol kvs)"
  by (simp add: validateToolParameters_def checkParameters_passes_iff)

lemma executeTool_try_invalid:
  assumes "validateToolParameters parameters \<noteq> None"
  shows "\<exists>e. is_request_error e
           \<and> executeTool_try config env toolName parameters context toolExecutor s = (Inl e, s)"
proof (cases "validateToolName toolName")
  case None
  from assms obtain e where e: "validateToolParameters parameters = Some e" by auto
  with None validateToolParameters_request_error [OF e] show ?thesis
    by (simp add: executeTool_try_def)
next
  case (Some e)
  with validateToolName_request_error [OF Some] show ?thesis
    by (simp add: executeTool_try_def)
qed

text \<open>
  C3, as the code has it. For every parameter map that contains a function or a symbol,
  at any depth, the call fails at input validation with a TealTigerValidationError of
  code INVALID_REQUEST: the exception leaves the \<open>try\<close> block with the state
  untouched, so the transport's evaluate operation is not invoked (nor is the
  executor), the result is a failure with that code, and the error counter goes up by
  one. An empty parameter map is not among these inputs.
\<close>

theorem executeTool_rejects_functions_and_symbols:
  assumes "entries_bear_function_or_symbol kvs"
  shows "\<exists>thrown r e s'.
           is_request_error thrown
           \<and> executeTool_try config env toolName (JObj kvs) context toolExecutor s = (Inl thrown, s)
           \<and> executeTool config env toolName (JObj kvs) context toolExecutor s = (Inr r, s')
           \<and> evaluate_calls s' = evaluate_calls s
           \<and> executor_calls s' = executor_calls s
           \<and> res_success r = False
           \<and> res_error r = Some e
           \<and> err_code e = ''INVALID_REQUEST''
           \<and> errorCount (statistics s') = errorCount (statistics s) + 1"
proof -
  from assms have "validateToolParameters (JObj kvs) \<noteq> None"
    using validateToolParameters_object [of kvs] by blast
  from executeTool_try_invalid [OF this, of config env toolName "context" toolExecutor s]
  obtain thrown where t: "is_request_error thrown"
    and x: "executeTool_try config env toolName (JObj kvs) context toolExecutor s = (Inl thrown, s)"
    by blast
  from t have "err_code (error_bundle thrown) = ''INVALID_REQUEST''"
    by (cases thrown) (auto simp add: is_request_error_def error_bundle_def)
  with t x executeTool_caught [OF x] show ?thesis
    by simp
qed

text \<open>
  C3 as stated fails for the empty parameter map: it passes validation, the request is
  sent to the transport, and under an allow decision the call succeeds.
\<close>

theorem empty_parameters_counterexample:
  "validateToolParameters (JObj []) = None
   \<and> executeTool example_config (example_env (decided allow_decision)) ''test-tool''
         (JObj []) None (Some echo_executor) initial_state
       = (Inr \<lparr>res_success = True,
               res_data = Some (JObj [(''tool'', JStr ''test-tool''), (''params'', JObj [])]),
               res_securityDecision = allow_decision, res_error = None\<rparr>,
          \<lparr>statistics = \<lparr>totalRequests = 1, allowedRequests = 1, deniedRequests = 0,
                          transformedRequests = 0,
                          averageResponseTime =
        Divide (Plus (Times (Integer 0) (Minus (Integer 1) (Integer 1))) (Integer 25)) (Integer 1),
                          errorCount = 0\<rparr>,
           evaluate_calls = [example_request (JObj [])],
           executor_calls = [(''test-tool'', JObj [])]\<rparr>)"
proof -
  have v: "validateToolParameters (JObj []) = None"
    by (simp add: validateToolParameters_def)
  have a: "dec_action allow_decision = ''allow''"
    by (simp add: allow_decision_def example_decision_def)
  from executeTool_try_decided [OF example_obtained_any [OF v], of allow_decision "Some echo_executor"
      initial_state] a v
  show ?thesis
    by (simp add: executeTool_def handleAllowDecision_def echo_executor_def Let_def
        evaluated_state_def initial_state_def example_env_def example_config_def
        example_request_def allow_decision_def example_statistics_after_one)
qed

text \<open>
  A parameter map with a symbol inside a nested array satisfies the hypothesis of C3.
\<close>

theorem executeTool_rejects_functions_and_symbols_witness:
  "entries_bear_function_or_symbol nested_symbol_entries
   \<and> (\<exists>thrown r e s'.
           is_request_error thrown
           \<and> executeTool_try example_config (example_env (decided allow_decision)) ''test-tool''
               (JObj nested_symbol_entries) None (Some echo_executor) initial_state = (Inl thrown, initial_state)
           \<and> executeTool example_config (example_env (decided allow_decision)) ''test-tool''
               (JObj nested_symbol_entries) None (Some echo_executor) initial_state = (Inr r, s')
           \<and> evaluate_calls s' = evaluate_calls initial_state
           \<and> executor_calls s' = executor_calls initial_state
           \<and> res_success r = False
           \<and> res_error r = Some e
           \<and> err_code e = ''INVALID_REQUEST''
           \<and> errorCount (statistics s') = errorCount (statistics initial_state) + 1)"
proof -
  have b: "entries_bear_function_or_symbol nested_symbol_entries"
    by (simp add: nested_symbol_entries_def)
  show ?thesis
    using b executeTool_rejects_functions_and_symbols [OF b, of example_config
        "example_env (decided allow_decision)" "''test-tool''" None "Some echo_executor" initial_state]
    by blast
qed

subsection \<open>Statistics\<close>

lemma handleAllowDecision_statistics:
  "statistics (snd (handleAllowDecision toolName parameters decision toolExecutor s)) = statistics s"
  by (simp add: handleAllowDecision_def Let_def split: option.splits sum.splits)

lemma handleTransformDecision_statistics:
  "statistics (snd (handleTransformDecision decision toolExecutor s)) = statistics s"
  by (simp add: handleTransformDecision_def Let_def split: option.splits sum.splits)

lemma evaluated_state_statistics:
  "statistics (evaluated_state config env toolName parameters context decision s)
     = updateStatistics decision (env_now_evaluated env - env_now_start env) (statistics s)"
  by (simp add: evaluated_state_def)

lemma executeTool_statistics_decided:
  assumes "obtained_decision config env toolName parameters context = Some decision"
  shows "statistics (snd (executeTool config env toolName parameters context toolExecutor s)) =
     (let st = updateStatistics decision (env_now_evaluated env - env_now_start env) (statistics s)
      in if dec_action decision = ''allow'' \<or> dec_action decision = ''deny''
            \<or> dec_action decision = ''transform''
         then st else st\<lparr>errorCount := errorCount st + 1\<rparr>)"
proof -
  let ?s2 = "evaluated_state config env toolName parameters context decision s"
  consider (allow) "dec_action decision = ''allow''"
    | (deny) "dec_action decision = ''deny''"
    | (transform) "dec_action decision = ''transform''"
    | (other) "dec_action decision \<noteq> ''allow''" "dec_action decision \<noteq> ''deny''"
        "dec_action decision \<noteq> ''transform''"
    by blast
  then show ?thesis
  proof cases
    case allow
    obtain r s3 where h: "handleAllowDecision toolName parameters decision toolExecutor ?s2 = (r, s3)"
      by (cases "handleAllowDecision toolName parameters decision toolExecutor ?s2")
    with handleAllowDecision_statistics [of toolName parameters decision toolExecutor ?s2]
    have "statistics s3 = statistics ?s2" by simp
    with allow h show ?thesis
      by (simp add: executeTool_def executeTool_try_decided [OF assms] Let_def
          evaluated_state_statistics)
  next
    case deny
    then show ?thesis
      by (simp add: executeTool_def executeTool_try_decided [OF assms] Let_def
          evaluated_state_statistics)
  next
    case transform
    obtain r s3 where h: "handleTransformDecision decision toolExecutor ?s2 = (r, s3)"
      by (cases "handleTransformDecision decision toolExecutor ?s2")
    with handleTransformDecision_statistics [of decision toolExecutor ?s2]
    have "statistics s3 = statistics ?s2" by simp
    with transform h show ?thesis
      by (simp add: executeTool_def executeTool_try_decided [OF assms] Let_def
          evaluated_state_statistics)
  next
    case other
    then show ?thesis
      by (simp add: executeTool_def executeTool_try_decided [OF assms] Let_def
          executeTool_catch_def evaluated_state_statistics)
  qed
qed

lemma executeTool_statistics_unanswered:
  assumes "obtained_response config env toolName parameters context = None"
  shows "statistics (snd (executeTool config env toolName parameters context toolExecutor s))
           = (statistics s)\<lparr>errorCount := errorCount (statistics s) + 1\<rparr>"
proof -
  from executeTool_try_unanswered [OF assms, of toolExecutor s]
  obtain e s1 where
    t: "executeTool_try config env toolName parameters context toolExecutor s = (Inl e, s1)"
    and st: "statistics s1 = statistics s"
    by blast
  from executeTool_caught [OF t] st show ?thesis by simp
qed

lemma executeTool_statistics_undecided:
  assumes "obtained_response config env toolName parameters context = Some response"
    and "resp_decision response = None"
  shows "statistics (snd (executeTool config env toolName parameters context toolExecutor s))
           = (statistics s)\<lparr>totalRequests := totalRequests (statistics s) + 1,
                             errorCount := errorCount (statistics s) + 1\<rparr>"
  using executeTool_caught [OF executeTool_try_undecided [OF assms, of toolExecutor s]]
  by simp

lemma updateStatistics_counters:
  "totalRequests (updateStatistics decision t st) = totalRequests st + 1"
  "allowedRequests (updateStatistics decision t st)
     = allowedRequests st + (if dec_action decision = ''allow'' then 1 else 0)"
  "deniedRequests (updateStatistics decision t st)
     = deniedRequests st + (if dec_action decision = ''deny'' then 1 else 0)"
  "transformedRequests (updateStatistics decision t st)
     = transformedRequests st + (if dec_action decision = ''transform'' then 1 else 0)"
  "errorCount (updateStatistics decision t st) = errorCount st"
  by (simp_all add: updateStatistics_def Let_def)

lemma updateStatistics_average:
  "averageResponseTime (updateStatistics decision t st)
     = Divide (Plus (Times (averageResponseTime st)
                           (Minus (Integer (int (totalRequests st + 1))) (Integer 1)))
                    (Integer t))
              (Integer (int (totalRequests st + 1)))"
  by (simp add: updateStatistics_def Let_def)

lemma execute_call_counters:
  "totalRequests (statistics (execute_call config c s))
     = totalRequests (statistics s) + (if outcome_of config c = Unanswered then 0 else 1)
   \<and> allowedRequests (statistics (execute_call config c s))
     = allowedRequests (statistics s) + (if outcome_of config c = Allowed then 1 else 0)
   \<and> deniedRequests (statistics (execute_call config c s))
     = deniedRequests (statistics s) + (if outcome_of config c = Denied then 1 else 0)
   \<and> transformedRequests (statistics (execute_call config c s))
     = transformedRequests (statistics s) + (if outcome_of config c = Transformed then 1 else 0)
   \<and> errorCount (statistics (execute_call config c s))
     = errorCount (statistics s)
       + (if outcome_of config c = Unanswered \<or> outcome_of config c = OtherDecision then 1 else 0)"
proof (cases "obtained_response config (arg_env c) (arg_toolName c) (arg_parameters c) (arg_context c)")
  case None
  from executeTool_statistics_unanswered [OF None, of "arg_executor c" s] None
  show ?thesis
    by (simp add: execute_call_def outcome_of_def)
next
  case (Some response)
  show ?thesis
  proof (cases "resp_decision response")
    case None
    from executeTool_statistics_undecided [OF Some None, of "arg_executor c" s] Some None
    show ?thesis
      by (simp add: execute_call_def outcome_of_def)
  next
    case (Some decision)
    with \<open>obtained_response config (arg_env c) (arg_toolName c) (arg_parameters c) (arg_context c)
            = Some response\<close>
    have d: "obtained_decision config (arg_env c) (arg_toolName c) (arg_parameters c) (arg_context c)
               = Some decision"
      by (simp add: obtained_decision_def)
    from executeTool_statistics_decided [OF d, of "arg_executor c" s] Some
      \<open>obtained_response config (arg_env c) (arg_toolName c) (arg_parameters c) (arg_context c)
            = Some response\<close>
    show ?thesis
      by (simp add: execute_call_def outcome_of_def Let_def updateStatistics_counters)
  qed
qed

lemma executeTool_sequence_counters:
  "totalRequests (statistics (executeTool_sequence config calls s))
     = totalRequests (statistics s)
       + length (filter (\<lambda>c. outcome_of config c \<noteq> Unanswered) calls)
   \<and> allowedRequests (statistics (executeTool_sequence config calls s))
     = allowedRequests (statistics s) + count_list (map (outcome_of config) calls) Allowed
   \<and> deniedRequests (statistics (executeTool_sequence config calls s))
     = deniedRequests (statistics s) + count_list (map (outcome_of config) calls) Denied
   \<and> transformedRequests (statistics (executeTool_sequence config calls s))
     = transformedRequests (statistics s) + count_list (map (outcome_of config) calls) Transformed
   \<and> errorCount (statistics (executeTool_sequence config calls s))
     = errorCount (statistics s) + count_list (map (outcome_of config) calls) Unanswered
       + count_list (map (outcome_of config) calls) OtherDecision"
proof (induction calls arbitrary: s)
  case Nil
  show ?case by simp
next
  case (Cons c cs)
  from Cons.IH [of "execute_call config c s"] execute_call_counters [of config c s]
  show ?case by simp
qed

lemma outcome_partition:
  "length (filter (\<lambda>x. x \<noteq> Unanswered) os)
     = count_list os Allowed + count_list os Denied + count_list os Transformed
       + count_list os OtherDecision"
proof (induction os)
  case Nil
  show ?case by simp
next
  case (Cons x xs)
  then show ?case by (cases x) simp_all
qed

lemma example_outcomes:
  "map (outcome_of example_config) example_calls = [Allowed, Denied, Unanswered, Transformed, Allowed]"
  by (simp add: example_calls_def outcome_of_def obtained_response_def example_call_def
      validateToolName_test_tool validateToolParameters_example example_env_def decided_def
      allow_decision_def deny_decision_def transform_decision_def example_decision_def
      validateToolParameters_function)

text \<open>
  C6, as the code has it. Whenever a call obtains a decision, the total-requests counter
  goes up by one together with the counter of the decision's action (allowed, denied or
  transformed), and the average latency becomes the outcome of the computation
  (oldAvg * (n - 1) + sample) / n in the arithmetic of JavaScript numbers, where n is
  the new total and the sample is the time from entry to the end of the evaluation; the
  rounding of that arithmetic is not modelled, so nothing is said about how close the
  outcome is to the mean of the samples.
  Whenever a call obtains no successful response (input validation fails, the transport
  throws, the response reports no success), only the error counter goes up: the total,
  the per-action counters and the average stay as they were. Consequently, after any run
  of calls on a fresh client, allowedRequests, deniedRequests and transformedRequests
  are the numbers a, d and t of calls allowed, denied and transformed, and totalRequests
  is a + d + t plus the number of successful responses that carried no decision or an
  action outside the three (a + d + t when there is none).
\<close>

theorem statistics_follow_decisions:
  "(\<forall>decision.
       obtained_decision config env toolName parameters ctx = Some decision \<longrightarrow>
       (let st = statistics s;
            st' = statistics (snd (executeTool config env toolName parameters ctx toolExecutor s));
            n = totalRequests st + 1
        in totalRequests st' = n
         \<and> allowedRequests st' = allowedRequests st + (if dec_action decision = ''allow'' then 1 else 0)
         \<and> deniedRequests st' = deniedRequests st + (if dec_action decision = ''deny'' then 1 else 0)
         \<and> transformedRequests st'
             = transformedRequests st + (if dec_action decision = ''transform'' then 1 else 0)
         \<and> averageResponseTime st'
             = Divide (Plus (Times (averageResponseTime st) (Minus (Integer (int n)) (Integer 1)))
                            (Integer (env_now_evaluated env - env_now_start env)))
                      (Integer (int n))))
   \<and> (obtained_response config env toolName parameters ctx = None \<longrightarrow>
        statistics (snd (executeTool config env toolName parameters ctx toolExecutor s))
          = (statistics s)\<lparr>errorCount := errorCount (statistics s) + 1\<rparr>)
   \<and> (let outcomes = map (outcome_of config) calls;
           st' = statistics (executeTool_sequence config calls initial_state)
       in totalRequests st'
            = count_list outcomes Allowed + count_list outcomes Denied
              + count_list outcomes Transformed + count_list outcomes OtherDecision
        \<and> allowedRequests st' = count_list outcomes Allowed
        \<and> deniedRequests st' = count_list outcomes Denied
        \<and> transformedRequests st' = count_list outcomes Transformed
        \<and> errorCount st' = count_list outcomes Unanswered + count_list outcomes OtherDecision)"
proof (intro conjI allI impI)
  fix decision
  assume d: "obtained_decision config env toolName parameters ctx = Some decision"
  show "let st = statistics s;
            st' = statistics (snd (executeTool config env toolName parameters ctx toolExecutor s));
            n = totalRequests st + 1
        in totalRequests st' = n
         \<and> allowedRequests st' = allowedRequests st + (if dec_action decision = ''allow'' then 1 else 0)
         \<and> deniedRequests st' = deniedRequests st + (if dec_action decision = ''deny'' then 1 else 0)
         \<and> transformedRequests st'
             = transformedRequests st + (if dec_action decision = ''transform'' then 1 else 0)
         \<and> averageResponseTime st'
             = Divide (Plus (Times (averageResponseTime st) (Minus (Integer (int n)) (Integer 1)))
                            (Integer (env_now_evaluated env - env_now_start env)))
                      (Integer (int n))"
    unfolding Let_def executeTool_statistics_decided [OF d, unfolded Let_def]
    by (simp add: updateStatistics_counters updateStatistics_average)
next
  assume "obtained_response config env toolName parameters ctx = None"
  then show "statistics (snd (executeTool config env toolName parameters ctx toolExecutor s))
          = (statistics s)\<lparr>errorCount := errorCount (statistics s) + 1\<rparr>"
    by (rule executeTool_statistics_unanswered)
next
  show "let outcomes = map (outcome_of config) calls;
           st' = statistics (executeTool_sequence config calls initial_state)
       in totalRequests st'
            = count_list outcomes Allowed + count_list outcomes Denied
              + count_list outcomes Transformed + count_list outcomes OtherDecision
        \<and> allowedRequests st' = count_list outcomes Allowed
        \<and> deniedRequests st' = count_list outcomes Denied
        \<and> transformedRequests st' = count_list outcomes Transformed
        \<and> errorCount st' = count_list outcomes Unanswered + count_list outcomes OtherDecision"
    using executeTool_sequence_counters [of config calls initial_state]
      outcome_partition [of "map (outcome_of config) calls"]
    by (simp add: Let_def initial_state_def initial_statistics_def filter_map o_def)
qed

text \<open>
  C6 as stated fails on the error branch of input validation: the call ends in the
  \<open>catch\<close> block with totalRequests still 0 and the average untouched; only
  errorCount is incremented.
\<close>

theorem validation_failure_counterexample:
  "executeTool_try example_config (example_env (decided allow_decision)) ''test-tool''
       function_parameters None (Some echo_executor) initial_state = (Inl callback_error, initial_state)
   \<and> statistics (snd (executeTool example_config (example_env (decided allow_decision)) ''test-tool''
         function_parameters None (Some echo_executor) initial_state))
       = \<lparr>totalRequests = 0, allowedRequests = 0, deniedRequests = 0, transformedRequests = 0,
          averageResponseTime = Integer 0, errorCount = 1\<rparr>"
proof -
  have t: "executeTool_try example_config (example_env (decided allow_decision)) ''test-tool''
       function_parameters None (Some echo_executor) initial_state = (Inl callback_error, initial_state)"
    by (simp add: executeTool_try_def validateToolName_test_tool validateToolParameters_function)
  from t executeTool_caught [OF t] show ?thesis
    by (simp add: initial_state_def initial_statistics_def)
qed

text \<open>
  A deny call, a call with a function-valued parameter, and a run of five calls on a
  fresh client (allow, deny, invalid, transform, allow).
\<close>

theorem statistics_follow_decisions_witness:
  "obtained_decision example_config (example_env (decided deny_decision)) ''test-tool''
       example_parameters None = Some deny_decision
   \<and> totalRequests (statistics (snd (executeTool example_config (example_env (decided deny_decision))
         ''test-tool'' example_parameters None (Some echo_executor) initial_state))) = 1
   \<and> deniedRequests (statistics (snd (executeTool example_config (example_env (decided deny_decision))
         ''test-tool'' example_parameters None (Some echo_executor) initial_state))) = 1
   \<and> averageResponseTime (statistics (snd (executeTool example_config
         (example_env (decided deny_decision))
         ''test-tool'' example_parameters None (Some echo_executor) initial_state)))
       = Divide (Plus (Times (Integer 0) (Minus (Integer 1) (Integer 1))) (Integer 25)) (Integer 1)
   \<and> obtained_response example_config (example_env (decided allow_decision)) ''test-tool''
       function_parameters None = None
   \<and> statistics (snd (executeTool example_config (example_env (decided allow_decision)) ''test-tool''
         function_parameters None (Some echo_executor) initial_state))
       = initial_statistics\<lparr>errorCount := 1\<rparr>
   \<and> map (outcome_of example_config) example_calls = [Allowed, Denied, Unanswered, Transformed, Allowed]
   \<and> totalRequests (statistics (executeTool_sequence example_config example_calls initial_state)) = 4
   \<and> allowedRequests (statistics (executeTool_sequence example_config example_calls initial_state)) = 2
   \<and> deniedRequests (statistics (executeTool_sequence example_config example_calls initial_state)) = 1
   \<and> transformedRequests (statistics (executeTool_sequence example_config example_calls initial_state)) = 1
   \<and> errorCount (statistics (executeTool_sequence example_config example_calls initial_state)) = 1"
proof -
  have a: "dec_action deny_decision = ''deny''"
    by (simp add: deny_decision_def example_decision_def)
  have clock: "env_now_evaluated (example_env (decided deny_decision))
                 - env_now_start (example_env (decided deny_decision)) = 25"
    by (simp add: example_env_def)
  have start: "statistics initial_state = initial_statistics"
    "totalRequests initial_statistics = 0" "deniedRequests initial_statistics = 0"
    "averageResponseTime initial_statistics = Integer 0" "errorCount initial_statistics = 0"
    by (simp_all add: initial_state_def initial_statistics_def)
  from statistics_follow_decisions [where config = example_config
      and env = "example_env (decided deny_decision)" and toolName = "''test-tool''"
      and parameters = example_parameters and ctx = None
      and toolExecutor = "Some echo_executor" and s = initial_state and calls = example_calls]
    example_obtained [of deny_decision] a clock start
  have one: "totalRequests (statistics (snd (executeTool example_config
         (example_env (decided deny_decision))
         ''test-tool'' example_parameters None (Some echo_executor) initial_state))) = 1
   \<and> deniedRequests (statistics (snd (executeTool example_config (example_env (decided deny_decision))
         ''test-tool'' example_parameters None (Some echo_executor) initial_state))) = 1
   \<and> averageResponseTime (statistics (snd (executeTool example_config
         (example_env (decided deny_decision))
         ''test-tool'' example_parameters None (Some echo_executor) initial_state)))
       = Divide (Plus (Times (Integer 0) (Minus (Integer 1) (Integer 1))) (Integer 25)) (Integer 1)"
    by (simp add: Let_def)
  from statistics_follow_decisions [where config = example_config
      and env = "example_env (decided allow_decision)" and toolName = "''test-tool''"
      and parameters = function_parameters and ctx = None
      and toolExecutor = "Some echo_executor" and s = initial_state and calls = example_calls]
    example_unanswered start
  have two: "statistics (snd (executeTool example_config (example_env (decided allow_decision))
         ''test-tool'' function_parameters None (Some echo_executor) initial_state))
       = initial_statistics\<lparr>errorCount := 1\<rparr>"
    by simp
  from statistics_follow_decisions [where config = example_config
      and env = "example_env (decided allow_decision)" and toolName = "''test-tool''"
      and parameters = function_parameters and ctx = None
      and toolExecutor = "Some echo_executor" and s = initial_state and calls = example_calls]
    example_outcomes
  have three: "totalRequests (statistics (executeTool_sequence example_config example_calls initial_state)) = 4
   \<and> allowedRequests (statistics (executeTool_sequence example_config example_calls initial_state)) = 2
   \<and> deniedRequests (statistics (executeTool_sequence example_config example_calls initial_state)) = 1
   \<and> transformedRequests (statistics (executeTool_sequence example_config example_calls initial_state)) = 1
   \<and> errorCount (statistics (executeTool_sequence example_config example_calls initial_state)) = 1"
    by (simp add: Let_def)
  from example_obtained [of deny_decision] one example_unanswered two example_outcomes three
  show ?thesis by blast
qed

subsection \<open>The policy builder\<close>

lemma reason_or_truthy: "fallback \<noteq> [] \<Longrightarrow> reason_or r fallback \<noteq> []"
  by (simp add: reason_or_def split: option.splits)

lemma apply_call_invariant:
  assumes "builder_invariant b" and "apply_call c b = Inr b'"
  shows "builder_invariant b'"
proof (cases c)
  case (Name n)
  with assms show ?thesis
    by (auto simp add: builder_invariant_def PolicyBuilder_name_def split: if_splits)
next
  case (Description d)
  with assms show ?thesis
    by (auto simp add: builder_invariant_def PolicyBuilder_description_def split: if_splits)
next
  case (Priority p)
  with assms show ?thesis
    by (auto simp add: builder_invariant_def PolicyBuilder_priority_def split: if_splits)
next
  case (WhenToolName p)
  with assms show ?thesis
    by (auto simp add: builder_invariant_def whenToolName_def addCondition_def Let_def)
next
  case (WhenRiskLevel operator level)
  with assms show ?thesis
    by (auto simp add: builder_invariant_def whenRiskLevel_def addCondition_def Let_def)
next
  case (WhenAgentId p)
  with assms show ?thesis
    by (auto simp add: builder_invariant_def whenAgentId_def addCondition_def Let_def)
next
  case (WhenParameterExists p)
  with assms show ?thesis
    by (auto simp add: builder_invariant_def whenParameterExists_def addCondition_def Let_def)
next
  case (WhenParameterEquals p v)
  with assms show ?thesis
    by (auto simp add: builder_invariant_def whenParameterEquals_def addCondition_def Let_def)
next
  case (WhenCondition cond)
  with assms show ?thesis
    by (auto simp add: builder_invariant_def whenCondition_def addCondition_def Let_def)
next
  case (Allow r)
  with assms show ?thesis
    by (auto simp add: builder_invariant_def allow_def reason_or_truthy)
next
  case (Deny r)
  with assms show ?thesis
    by (auto simp add: builder_invariant_def deny_def reason_or_truthy)
next
  case (TransformToReadOnly r)
  with assms show ?thesis
    by (auto simp add: builder_invariant_def transformToReadOnly_def reason_or_truthy)
next
  case (TransformFilterParameters ps r)
  with assms show ?thesis
    by (auto simp add: builder_invariant_def transformFilterParameters_def reason_or_truthy)
next
  case (TransformAnonymizeParameters ps r)
  with assms show ?thesis
    by (auto simp add: builder_invariant_def transformAnonymizeParameters_def reason_or_truthy)
next
  case (TransformWith t r)
  with assms show ?thesis
    by (auto simp add: builder_invariant_def transformWith_def reason_or_truthy)
qed

lemma apply_calls_invariant:
  "builder_invariant b \<Longrightarrow> apply_calls cs b = Inr b' \<Longrightarrow> builder_invariant b'"
proof (induction cs arbitrary: b)
  case Nil
  then show ?case by simp
next
  case (Cons c cs)
  then show ?case
    by (auto split: sum.splits dest: apply_call_invariant)
qed

lemma createPolicy_invariant: "builder_invariant createPolicy"
  by (simp add: builder_invariant_def createPolicy_def)

lemma build_succeeds_iff:
  "(\<exists>p. build b = Inr p) \<longleftrightarrow>
     \<not> falsy (policy_name b) \<and> \<not> falsy (policy_action b) \<and> \<not> falsy (policy_reason b)
     \<and> policy_conditions b \<noteq> None \<and> policy_conditions b \<noteq> Some []
     \<and> (policy_action b = Some ''transform'' \<longrightarrow> policy_transformation b \<noteq> None)"
  by (auto simp add: build_def validatePolicy_def split: option.splits)

lemma build_returns_builder: "build b = Inr p \<Longrightarrow> p = b"
  by (simp add: build_def split: option.splits)

text \<open>
  After any chain of builder calls, \<open>build\<close> succeeds exactly when a name and an
  action are set and there is at least one condition: an action set by the builder
  always comes with a reason, and a transform action with a transformation.
\<close>

lemma build_chain_succeeds_iff:
  assumes "apply_calls cs createPolicy = Inr b"
  shows "(\<exists>p. build_chain cs = Inr p) \<longleftrightarrow>
           policy_name b \<noteq> None \<and> policy_action b \<noteq> None \<and> policy_conditions b \<noteq> Some []"
proof -
  from apply_calls_invariant [OF createPolicy_invariant assms]
  have "builder_invariant b" .
  then have "(\<exists>p. build b = Inr p) \<longleftrightarrow>
           policy_name b \<noteq> None \<and> policy_action b \<noteq> None \<and> policy_conditions b \<noteq> Some []"
    unfolding build_succeeds_iff builder_invariant_def falsy_def
    by auto
  with assms show ?thesis
    by (simp add: build_chain_def)
qed

lemma build_chain_transform_carries_transformation:
  assumes "build_chain cs = Inr p" and "policy_action p = Some ''transform''"
  shows "policy_transformation p \<noteq> None"
proof -
  from assms(1) obtain b where b: "build b = Inr p"
    by (auto simp add: build_chain_def split: sum.splits)
  then have "p = b" by (rule build_returns_builder)
  with b assms(2) build_succeeds_iff [of b] show ?thesis
    by blast
qed

text \<open>
  C7 at the input where the code departs from it. The chain name, whenToolName,
  transformToReadOnly, deny builds without error, and the policy it returns has the
  action deny and still carries the read-only transformation: \<open>deny\<close> (like
  \<open>allow\<close>) sets the action and the reason and leaves the transformation of the
  earlier call in place, and \<open>validatePolicy\<close> checks only that a transform action has
  a transformation.
\<close>

theorem deny_after_transform_keeps_transformation:
  "build_chain stale_chain =
     Inr \<lparr>policy_name = Some ''safe-writes'', policy_description = None,
          policy_conditions =
            Some [\<lparr>cond_type = ''tool_name'', cond_pattern = Some ''*write*'', cond_operator = None,
                   cond_value = None, cond_parameter = None\<rparr>],
          policy_action = Some ''deny'',
          policy_reason = Some ''Operation denied by policy'',
          policy_transformation =
            Some \<lparr>trans_type = ''read_only'', remove_parameters = None, anonymize_parameters = None\<rparr>,
          policy_priority = None\<rparr>"
  by code_simp

subsection \<open>The safe view of a configuration\<close>

lemma Configuration_new_accepts:
  assumes "Configuration_new url_protocol timestamp random userConfig = Inr config"
  shows "\<exists>key. apiKey config = Some key \<and> 10 \<le> length key"
  using assms
  by (auto simp add: Configuration_new_def validateConfig_def Let_def
      split: option.splits if_splits)

lemma example_Configuration_new:
  assumes "10 \<le> length key"
  shows "Configuration_new example_url_protocol timestamp random (example_user_config key)
           = Inr (example_built_config key)"
proof -
  from assms have "key \<noteq> []" by auto
  with assms show ?thesis
    by (simp add: Configuration_new_def validateConfig_def Let_def merge_config_def spread_def
        DEFAULT_CONFIG_def example_user_config_def example_built_config_def
        example_url_protocol_def check_timeout_def check_retries_def)
qed

lemma getSafeConfig_apiKey:
  "apiKey config = Some key \<Longrightarrow> apiKey (getSafeConfig config) = Some (take 10 key @ ''...'')"
  by (simp add: getSafeConfig_def substring0_def)

lemma getSafeConfig_same_first_ten:
  assumes "10 \<le> length key" and "apiKey config = Some key"
    and "apiKey other = Some (take 10 key @ other_rest)"
  shows "apiKey (getSafeConfig other) = apiKey (getSafeConfig config)"
proof -
  from assms(1) have "take 10 (take 10 key @ other_rest) = take 10 key" by simp
  with assms(2,3) show ?thesis
    by (simp add: getSafeConfig_apiKey)
qed

lemma getSafeConfig_passes_through:
  "ssaUrl (getSafeConfig config) = ssaUrl config"
  "agentId (getSafeConfig config) = agentId config"
  "timeout (getSafeConfig config) = timeout config"
  "retries (getSafeConfig config) = retries config"
  "debug (getSafeConfig config) = debug config"
  by (simp_all add: getSafeConfig_def)

lemma sanitizeConfig_agrees:
  assumes "apiKey config = Some key" and "10 \<le> length key" and "key \<noteq> ''secret-api-key''"
  shows "sanitizeConfig config = getSafeConfig config"
proof -
  from assms(2) have "\<not> length key \<le> 5" by simp
  with assms(1,3) show ?thesis
    unfolding sanitizeConfig_def getSafeConfig_def by simp
qed

lemma dots_infix:
  assumes "''...'' = us @ r @ c"
  shows "prefix r ''...''"
  using assms
  by (auto simp add: Cons_eq_append_conv append_eq_Cons_conv)

lemma first_ten_sublist_iff:
  assumes "length p = 10"
  shows "sublist (p @ r) (p @ ''...'') \<longleftrightarrow> prefix r ''...''"
proof
  assume "sublist (p @ r) (p @ ''...'')"
  then obtain a c where e: "p @ ''...'' = (a @ p) @ (r @ c)"
    by (auto simp add: sublist_def)
  then obtain us where "p = (a @ p) @ us \<and> us @ ''...'' = r @ c \<or> p @ us = a @ p \<and> ''...'' = us @ r @ c"
    unfolding append_eq_append_conv2 by blast
  then show "prefix r ''...''"
  proof
    assume h: "p = (a @ p) @ us \<and> us @ ''...'' = r @ c"
    then have "length p = length ((a @ p) @ us)" by metis
    then have "a = []" "us = []" by simp_all
    with h have "''...'' = r @ c" by simp
    then show ?thesis by (metis prefixI)
  next
    assume "p @ us = a @ p \<and> ''...'' = us @ r @ c"
    then show ?thesis by (metis dots_infix)
  qed
next
  assume "prefix r ''...''"
  then have "prefix (p @ r) (p @ ''...'')" by simp
  then show "sublist (p @ r) (p @ ''...'')" by (rule prefix_imp_sublist)
qed

lemma getSafeConfig_contains_key_iff:
  assumes "10 \<le> length key"
  shows "sublist key (take 10 key @ ''...'') \<longleftrightarrow> prefix (drop 10 key) ''...''"
proof -
  from assms have "length (take 10 key) = 10" by simp
  from first_ten_sublist_iff [OF this, of "drop 10 key"] show ?thesis
    by simp
qed

lemma getSafeConfig_is_key_iff:
  "take 10 key @ ''...'' = key \<longleftrightarrow> drop 10 key = ''...''"
proof -
  have "take 10 key @ ''...'' = take 10 key @ drop 10 key \<longleftrightarrow> drop 10 key = ''...''"
    unfolding same_append_eq by (rule eq_commute)
  then show ?thesis by simp
qed

lemma getSafeConfig_hides_long_key:
  assumes "13 < length key"
  shows "\<not> sublist key (take 10 key @ ''...'')"
proof
  assume "sublist key (take 10 key @ ''...'')"
  then have "length key \<le> length (take 10 key @ ''...'')"
    by (rule sublist_length_le)
  with assms show False by simp
qed

text \<open>
  C8, as the code has it. For every configuration the constructor accepts, the apiKey
  has at least 10 characters and the safe view shows exactly its first 10 characters
  followed by three dots; any key with the same first 10 characters gives the same
  view, so nothing of the key past the tenth character enters the view. The view
  contains the whole key exactly when the key is its own first 10 characters followed
  by at most three dots, and it is the key itself exactly when the key is 10 characters
  followed by three dots; the view contains no key longer than 13 characters. The
  fields ssaUrl, agentId, timeout, retries and debug pass through unchanged.
  \<open>sanitizeConfig\<close> gives the same view for every accepted key other than the literal
  secret-api-key, of which it shows nine characters and the dots.
\<close>

theorem getSafeConfig_shows_first_ten:
  assumes "Configuration_new url_protocol timestamp random userConfig = Inr config"
  shows "\<exists>key. apiKey config = Some key
           \<and> 10 \<le> length key
           \<and> apiKey (getSafeConfig config) = Some (take 10 key @ ''...'')
           \<and> (\<forall>other. apiKey other = Some (take 10 key @ other_rest) \<longrightarrow>
                  apiKey (getSafeConfig other) = apiKey (getSafeConfig config))
           \<and> (sublist key (take 10 key @ ''...'') \<longleftrightarrow> prefix (drop 10 key) ''...'')
           \<and> (take 10 key @ ''...'' = key \<longleftrightarrow> drop 10 key = ''...'')
           \<and> (13 < length key \<longrightarrow> \<not> sublist key (take 10 key @ ''...''))
           \<and> ssaUrl (getSafeConfig config) = ssaUrl config
           \<and> agentId (getSafeConfig config) = agentId config
           \<and> timeout (getSafeConfig config) = timeout config
           \<and> retries (getSafeConfig config) = retries config
           \<and> debug (getSafeConfig config) = debug config
           \<and> (key \<noteq> ''secret-api-key'' \<longrightarrow> sanitizeConfig config = getSafeConfig config)
           \<and> (key = ''secret-api-key'' \<longrightarrow>
                  apiKey (sanitizeConfig config) = Some ''secret-ap...'')"
proof -
  from Configuration_new_accepts [OF assms]
  obtain key where k: "apiKey config = Some key" and l: "10 \<le> length key"
    by blast
  show ?thesis
  proof (intro exI [of _ key] conjI allI impI)
    show "apiKey config = Some key" by (rule k)
    show "10 \<le> length key" by (rule l)
    show "apiKey (getSafeConfig config) = Some (take 10 key @ ''...'')"
      by (rule getSafeConfig_apiKey [OF k])
    show "apiKey (getSafeConfig other) = apiKey (getSafeConfig config)"
      if "apiKey other = Some (take 10 key @ other_rest)" for other
      using l k that by (rule getSafeConfig_same_first_ten)
    show "sublist key (take 10 key @ ''...'') \<longleftrightarrow> prefix (drop 10 key) ''...''"
      using l by (rule getSafeConfig_contains_key_iff)
    show "take 10 key @ ''...'' = key \<longleftrightarrow> drop 10 key = ''...''"
      by (rule getSafeConfig_is_key_iff)
    show "\<not> sublist key (take 10 key @ ''...'')" if "13 < length key"
      using that by (rule getSafeConfig_hides_long_key)
    show "sanitizeConfig config = getSafeConfig config" if "key \<noteq> ''secret-api-key''"
      using k l that by (rule sanitizeConfig_agrees)
    show "apiKey (sanitizeConfig config) = Some ''secret-ap...''" if "key = ''secret-api-key''"
      using k that by (simp add: sanitizeConfig_def)
  qed (rule getSafeConfig_passes_through)+
qed

text \<open>
  C8 as stated fails for a key of exactly 10 characters, the shortest the constructor
  accepts: the ten characters shown are the whole key. And \<open>sanitizeConfig\<close> shows
  nine characters, not ten, of the key secret-api-key.
\<close>

theorem ten_character_key_counterexample:
  "Configuration_new example_url_protocol 0 ''abc123'' (example_user_config ''0123456789'')
     = Inr (example_built_config ''0123456789'')
   \<and> apiKey (getSafeConfig (example_built_config ''0123456789'')) = Some (''0123456789'' @ ''...'')
   \<and> apiKey (sanitizeConfig (example_built_config ''secret-api-key'')) = Some ''secret-ap...''"
proof -
  have "Configuration_new example_url_protocol 0 ''abc123'' (example_user_config ''0123456789'')
     = Inr (example_built_config ''0123456789'')"
    by (rule example_Configuration_new) simp
  moreover have "apiKey (getSafeConfig (example_built_config ''0123456789'')) = Some (''0123456789'' @ ''...'')"
    by (simp add: getSafeConfig_def substring0_def example_built_config_def)
  moreover have "apiKey (sanitizeConfig (example_built_config ''secret-api-key'')) = Some ''secret-ap...''"
    by (simp add: sanitizeConfig_def example_built_config_def)
  ultimately show ?thesis by blast
qed

text \<open>
  The constructor accepts the key 0123456789... of 13 characters, and its safe view is
  the key itself.
\<close>

lemma getSafeConfig_shows_dotted_key:
  "Configuration_new example_url_protocol 0 ''abc123'' (example_user_config ''0123456789...'')
     = Inr (example_built_config ''0123456789...'')
   \<and> apiKey (getSafeConfig (example_built_config ''0123456789...'')) = Some ''0123456789...''"
proof -
  have "Configuration_new example_url_protocol 0 ''abc123'' (example_user_config ''0123456789...'')
     = Inr (example_built_config ''0123456789...'')"
    by (rule example_Configuration_new) simp
  moreover have "apiKey (getSafeConfig (example_built_config ''0123456789...'')) = Some ''0123456789...''"
    by (simp add: getSafeConfig_def substring0_def example_built_config_def)
  ultimately show ?thesis by blast
qed

text \<open>
  The key of the configuration tests: accepted, longer than 13 characters, shown as
  very-secre followed by the dots, as is another key with the same first 10 characters;
  the view does not contain the key.
\<close>

theorem getSafeConfig_shows_first_ten_witness:
  "Configuration_new example_url_protocol 0 ''abc123'' (example_user_config ''very-secret-api-key-12345'')
     = Inr (example_built_config ''very-secret-api-key-12345'')
   \<and> apiKey (example_built_config ''very-secre and more'') = Some (take 10 ''very-secret-api-key-12345'' @ '' and more'')
   \<and> 13 < length ''very-secret-api-key-12345''
   \<and> ''very-secret-api-key-12345'' \<noteq> ''secret-api-key''
   \<and> apiKey (getSafeConfig (example_built_config ''very-secret-api-key-12345'')) = Some ''very-secre...''
   \<and> apiKey (getSafeConfig (example_built_config ''very-secre and more''))
        = apiKey (getSafeConfig (example_built_config ''very-secret-api-key-12345''))
   \<and> \<not> sublist ''very-secret-api-key-12345'' ''very-secre...''
   \<and> timeout (getSafeConfig (example_built_config ''very-secret-api-key-12345''))
        = timeout (example_built_config ''very-secret-api-key-12345'')
   \<and> sanitizeConfig (example_built_config ''very-secret-api-key-12345'')
        = getSafeConfig (example_built_config ''very-secret-api-key-12345'')"
proof -
  have c: "Configuration_new example_url_protocol 0 ''abc123'' (example_user_config ''very-secret-api-key-12345'')
     = Inr (example_built_config ''very-secret-api-key-12345'')"
    by (rule example_Configuration_new) simp
  have k: "apiKey (example_built_config ''very-secret-api-key-12345'') = Some ''very-secret-api-key-12345''"
    by (simp add: example_built_config_def)
  have o: "apiKey (example_built_config ''very-secre and more'')
             = Some (take 10 ''very-secret-api-key-12345'' @ '' and more'')"
    by (simp add: example_built_config_def)
  have l: "13 < length ''very-secret-api-key-12345''"
    and n: "''very-secret-api-key-12345'' \<noteq> ''secret-api-key''"
    and t: "take 10 ''very-secret-api-key-12345'' @ ''...'' = ''very-secre...''"
    by simp_all
  from getSafeConfig_shows_first_ten [OF c, where other_rest = "'' and more''"]
  obtain key where key: "apiKey (example_built_config ''very-secret-api-key-12345'') = Some key"
    and shown: "apiKey (getSafeConfig (example_built_config ''very-secret-api-key-12345''))
       = Some (take 10 key @ ''...'')"
    and same: "\<forall>other. apiKey other = Some (take 10 key @ '' and more'') \<longrightarrow>
         apiKey (getSafeConfig other)
           = apiKey (getSafeConfig (example_built_config ''very-secret-api-key-12345''))"
    and hidden: "13 < length key \<longrightarrow> \<not> sublist key (take 10 key @ ''...'')"
    and passed: "timeout (getSafeConfig (example_built_config ''very-secret-api-key-12345''))
       = timeout (example_built_config ''very-secret-api-key-12345'')"
    and agree: "key \<noteq> ''secret-api-key'' \<longrightarrow>
       sanitizeConfig (example_built_config ''very-secret-api-key-12345'')
         = getSafeConfig (example_built_config ''very-secret-api-key-12345'')"
    by blast
  from key k have key_is: "key = ''very-secret-api-key-12345''"
    by simp
  from shown key_is t
  have 1: "apiKey (getSafeConfig (example_built_config ''very-secret-api-key-12345'')) = Some ''very-secre...''"
    by simp
  from same [THEN spec, of "example_built_config ''very-secre and more''"] o key_is
  have 2: "apiKey (getSafeConfig (example_built_config ''very-secre and more''))
        = apiKey (getSafeConfig (example_built_config ''very-secret-api-key-12345''))"
    by simp
  from hidden key_is l t have 3: "\<not> sublist ''very-secret-api-key-12345'' ''very-secre...''"
    by simp
  from agree key_is n
  have 4: "sanitizeConfig (example_built_config ''very-secret-api-key-12345'')
        = getSafeConfig (example_built_config ''very-secret-api-key-12345'')"
    by simp
  from c o l n 1 2 3 passed 4 show ?thesis
    by (intro conjI)
qed

subsection \<open>Redaction of parameters\<close>

lemma sanitizeEntries_append:
  "sanitizeEntries kvs sanitized = sanitized @ sanitizeEntries kvs []"
proof (induction kvs arbitrary: sanitized)
  case Nil
  show ?case by simp
next
  case (Cons entry rest)
  obtain key v where e: "entry = (key, v)" by (cases entry)
  from Cons [of "set_property key (if isSensitive key then REDACTED else sanitizeValue v) sanitized"]
    Cons [of "set_property key (if isSensitive key then REDACTED else sanitizeValue v) []"]
  show ?case
    by (simp add: e set_property_def)
qed

lemma sanitizeEntries_Cons:
  "sanitizeEntries ((key, v) # rest) []
     = (if key = ''__proto__'' then []
        else [(key, if isSensitive key then REDACTED else sanitizeValue v)])
       @ sanitizeEntries rest []"
  using sanitizeEntries_append
    [of rest "[(key, if isSensitive key then REDACTED else sanitizeValue v)]"]
  by (simp add: set_property_def)

lemma sanitizeParameters_loop_is_sanitizeEntries:
  "sanitizeParameters_loop ps sanitized = sanitizeEntries ps sanitized"
  by (induction ps sanitized rule: sanitizeParameters_loop.induct) simp_all

lemma sanitizeParameters_Nil: "sanitizeParameters [] = []"
  by (simp add: sanitizeParameters_def)

text \<open>
  The loop of \<open>sanitizeParameters\<close> (and that of \<open>sanitizeValue\<close>) entry by entry: an entry
  under \<open>__proto__\<close> adds nothing to the result, every other entry adds one entry under
  its own key.
\<close>

lemma sanitizeParameters_Cons:
  "sanitizeParameters ((key, v) # rest)
     = (if key = ''__proto__'' then []
        else [(key, if isSensitive key then REDACTED else sanitizeValue v)])
       @ sanitizeParameters rest"
  unfolding sanitizeParameters_def sanitizeParameters_loop_is_sanitizeEntries
  by (rule sanitizeEntries_Cons)

lemma sanitizeValue_refines:
  "proto_free v \<Longrightarrow> sanitizeValue v = redacted_value v"
  "proto_free_entries kvs \<Longrightarrow> sanitizeEntries kvs [] = redacted_entries kvs"
  "proto_free_items vs \<Longrightarrow> sanitizeItems vs = redacted_items vs"
proof (induction v and kvs and vs rule: redacted_value_redacted_entries_redacted_items.induct)
  case (11 key v rest)
  then show ?case
    by (simp add: sanitizeEntries_Cons del: sanitizeEntries.simps)
qed simp_all

text \<open>
  On a parameter map in which no object has an entry under \<open>__proto__\<close>,
  \<open>sanitizeParameters\<close> is redaction as the specification words it, at every depth:
  the keys stay in order, \<open>null\<close> and \<open>undefined\<close> become the marker, the value under a
  sensitive key becomes the marker, and every other scalar is returned unchanged.
\<close>

lemma sanitizeParameters_refines:
  "proto_free_entries ps \<Longrightarrow> sanitizeParameters ps = redacted_entries ps"
  unfolding sanitizeParameters_def sanitizeParameters_loop_is_sanitizeEntries
  by (rule sanitizeValue_refines)

text \<open>
  A parameter map with a null note, an upper-case PASSWORD, a number, and a token and an
  undefined value inside an object inside an array.
\<close>

lemma sanitizeParameters_example:
  "proto_free_entries example_secrets
   \<and> sanitizeParameters example_secrets
     = [(''note'', JStr ''[REDACTED]''),
        (''PASSWORD'', JStr ''[REDACTED]''),
        (''count'', JNum (Fin 3)),
        (''items'', JArr [JObj [(''token'', JStr ''[REDACTED]''), (''name'', JStr ''item1''),
                                (''extra'', JStr ''[REDACTED]'')]])]"
  by code_simp

text \<open>
  C10 at the input where the code departs from it. Of the object that \<open>JSON.parse\<close>
  makes of \<open>{"__proto__": null, "count": 3}\<close>, \<open>sanitizeParameters\<close> returns the entry of
  count alone: the \<open>null\<close> under \<open>__proto__\<close> is not replaced by the marker, as redaction
  in the words of the specification has it, but its entry is lost. The same happens
  inside a nested object, where a scalar that is not sensitive is lost instead of being
  returned unchanged.
\<close>

theorem sanitizeParameters_loses_proto_entry:
  "sanitizeParameters [(''__proto__'', JNull), (''count'', JNum (Fin 3))]
     = [(''count'', JNum (Fin 3))]
   \<and> redacted_entries [(''__proto__'', JNull), (''count'', JNum (Fin 3))]
     = [(''__proto__'', JStr ''[REDACTED]''), (''count'', JNum (Fin 3))]
   \<and> sanitizeParameters [(''user'', JObj [(''__proto__'', JNum (Fin 7)), (''name'', JStr ''a'')])]
     = [(''user'', JObj [(''name'', JStr ''a'')])]"
  by code_simp

subsection \<open>The repository's tests on the model\<close>

text \<open>
  The inputs and the expected outputs of the unit tests of the repository, evaluated on
  the definitions above.
\<close>

lemma test_validateToolName_accepts:
  "list_all (\<lambda>name. validateToolName name = None)
     [''web-search'', ''file-read'', ''database-query'', ''api-call'', ''system-info'',
      ''tool_with_underscores'', ''tool123'', ''UPPERCASE-TOOL'']"
  by code_simp

lemma test_validateToolName_rejects:
  "list_all (\<lambda>name. validateToolName name \<noteq> None)
     ['''', ''   '', ''tool with spaces'', ''tool@special'', ''tool#hash'', ''tool$dollar'',
      ''tool%percent'', ''tool&ampersand'', ''tool*asterisk'', ''tool(parenthesis)'',
      ''tool[bracket]'', ''tool{brace}'', ''tool|pipe'', ''tool/slash'', ''tool?question'',
      ''tool<less>'', ''tool~tilde'', ''tool!exclamation'', ''tool+plus'', ''tool=equals'',
      replicate 101 CHR ''a'', ''123-tool'', ''tool--name'', ''tool__name'']"
  by code_simp

lemma test_validateToolParameters_accepts:
  "list_all (\<lambda>parameters. validateToolParameters parameters = None)
     [JObj [],
      JObj [(''param1'', JStr ''value1'')],
      JObj [(''param1'', JStr ''value1''), (''param2'', JNum (Fin 123))],
      JObj [(''param1'', JBool True), (''param2'', JNull)],
      JObj [(''nested'', JObj [(''key'', JStr ''value'')])],
      JObj [(''array'', JArr [JNum (Fin 1), JNum (Fin 2), JNum (Fin 3)])]]"
  by code_simp

lemma test_validateToolParameters_rejects:
  "list_all (\<lambda>parameters. validateToolParameters parameters \<noteq> None)
     [JNull, JUndefined, JStr ''string'', JNum (Fin 123), JBool True, JArr [], JFunction,
      JObj [(''validParam'', JStr ''value''), (''invalidParam'', JFunction)],
      JObj [(''validParam'', JStr ''value''), (''invalidParam'', JSymbol)]]"
  by code_simp

lemma test_sanitizeParameters_sensitive:
  "sanitizeParameters
     [(''username'', JStr ''user123''), (''password'', JStr ''secret123''),
      (''token'', JStr ''auth-token''), (''apiKey'', JStr ''api-key-123''),
      (''secret'', JStr ''secret-value''), (''key'', JStr ''encryption-key''),
      (''credential'', JStr ''credential-value''), (''normalParam'', JStr ''normal-value'')]
   = [(''username'', JStr ''user123''), (''password'', JStr ''[REDACTED]''),
      (''token'', JStr ''[REDACTED]''), (''apiKey'', JStr ''[REDACTED]''),
      (''secret'', JStr ''[REDACTED]''), (''key'', JStr ''[REDACTED]''),
      (''credential'', JStr ''[REDACTED]''), (''normalParam'', JStr ''normal-value'')]"
  by code_simp

lemma test_sanitizeParameters_nested:
  "sanitizeParameters
     [(''config'', JObj [(''password'', JStr ''secret''), (''setting'', JStr ''value'')]),
      (''items'', JArr [JObj [(''password'', JStr ''secret1''), (''name'', JStr ''item1'')],
                       JObj [(''password'', JStr ''secret2''), (''name'', JStr ''item2'')]]),
      (''normalParam'', JStr ''value'')]
   = [(''config'', JObj [(''password'', JStr ''[REDACTED]''), (''setting'', JStr ''value'')]),
      (''items'', JArr [JObj [(''password'', JStr ''[REDACTED]''), (''name'', JStr ''item1'')],
                       JObj [(''password'', JStr ''[REDACTED]''), (''name'', JStr ''item2'')]]),
      (''normalParam'', JStr ''value'')]"
  by code_simp

lemma test_sanitizeParameters_case_and_null:
  "sanitizeParameters
     [(''PASSWORD'', JStr ''secret''), (''Token'', JStr ''token''), (''ApiKey'', JStr ''key''),
      (''password'', JNull), (''token'', JUndefined), (''normalParam'', JStr ''value'')]
   = [(''PASSWORD'', JStr ''[REDACTED]''), (''Token'', JStr ''[REDACTED]''),
      (''ApiKey'', JStr ''[REDACTED]''), (''password'', JStr ''[REDACTED]''),
      (''token'', JStr ''[REDACTED]''), (''normalParam'', JStr ''value'')]"
  by code_simp

lemma test_sanitizeConfig:
  "map (\<lambda>key. apiKey (sanitizeConfig (test_config (Some key) (Some ''https://test-ssa.example.com'') None None)))
     [''very-long-secret-api-key-12345'', ''short'', ''test-api-key'', ''secret-api-key'']
   = [Some ''very-long-...'', Some ''short...'', Some ''test-api-k...'', Some ''secret-ap...'']"
  by code_simp

lemma test_validateConfig_accepts:
  "validateConfig example_url_protocol
     (test_config (Some ''test-api-key'') (Some ''https://test-ssa.example.com'')
        (Some (Fin 5000)) (Some (Fin 3))) = None"
  by code_simp

lemma test_validateConfig_rejects:
  "list_all (\<lambda>config. validateConfig example_url_protocol config \<noteq> None)
     [test_config None (Some ''https://test-ssa.example.com'') None None,
      test_config (Some '''') (Some ''https://test-ssa.example.com'') None None,
      test_config (Some ''test-api-key'') None None None,
      test_config (Some ''test-api-key'') (Some ''not-a-valid-url'') None None,
      test_config (Some ''test-api-key'') (Some ''http://insecure-ssa.example.com'') None None,
      test_config (Some ''test-api-key'') (Some ''https://test-ssa.example.com'') (Some (Fin (- 1))) None,
      test_config (Some ''test-api-key'') (Some ''https://test-ssa.example.com'') None (Some (Fin (- 1)))]"
  by code_simp

lemma test_build_simple_allow:
  "build_chain [Name ''test-policy'', Description ''Test policy'', Priority (Fin 10),
                WhenToolName ''web-search'', Allow (Some ''Safe operation'')]
   = Inr \<lparr>policy_name = Some ''test-policy'', policy_description = Some ''Test policy'',
          policy_conditions =
            Some [\<lparr>cond_type = ''tool_name'', cond_pattern = Some ''web-search'',
                   cond_operator = None, cond_value = None, cond_parameter = None\<rparr>],
          policy_action = Some ''allow'', policy_reason = Some ''Safe operation'',
          policy_transformation = None, policy_priority = Some (Fin 10)\<rparr>"
  by code_simp

lemma test_build_rejects:
  "list_all (\<lambda>chain. case build_chain chain of Inl e \<Rightarrow> True | Inr p \<Rightarrow> False)
     [[WhenToolName ''test'', Allow None],
      [Name ''test'', Allow None],
      [Name ''test'', WhenToolName ''test''],
      [Name ''''],
      [Name ''   ''],
      [Priority (Fin (- 1))],
      [Priority NaN]]"
  by code_simp

lemma test_mapDeploymentToModel:
  "map mapDeploymentToModel
     [''my-GPT-4-32k-deployment'', ''gpt-4-turbo-prod'', ''GPT-4'', ''gpt-35-turbo-16k'',
      ''gpt-3.5-turbo-16k-eu'', ''gpt-35-turbo'', ''chat-gpt-3.5-turbo'', ''davinci'']
   = [''gpt-4-32k'', ''gpt-4-turbo'', ''gpt-4'', ''gpt-3.5-turbo-16k'', ''gpt-3.5-turbo-16k'',
      ''gpt-3.5-turbo'', ''gpt-3.5-turbo'', ''gpt-3.5-turbo'']"
  by code_simp

lemma test_unknown_action:
  "map_sum id (\<lambda>r. (res_success r, map_option err_code (res_error r)))
     (fst (executeTool example_config
             (example_env (decided (example_decision ''unknown-action'' ''Unknown action'' ''medium'' None)))
             ''test-tool'' (JObj []) None (Some echo_executor) initial_state))
   = Inr (False, Some ''POLICY_ERROR'')"
proof -
  have v: "validateToolParameters (JObj []) = None"
    by (simp add: validateToolParameters_def)
  have a: "dec_action (example_decision ''unknown-action'' ''Unknown action'' ''medium'' None)
             = ''unknown-action''"
    by (simp add: example_decision_def)
  from executeTool_try_decided [OF example_obtained_any [OF v],
      of "example_decision ''unknown-action'' ''Unknown action'' ''medium'' None"
         "Some echo_executor" initial_state] a
  show ?thesis
    by (simp add: executeTool_def executeTool_catch_def Let_def error_bundle_def)
qed

lemma test_end_to_end_allow:
  "executeTool example_config (example_env (decided allow_decision)) ''test-tool''
       example_parameters None (Some echo_executor) initial_state
   = (Inr \<lparr>res_success = True,
           res_data = Some (JObj [(''tool'', JStr ''test-tool''), (''params'', example_parameters)]),
           res_securityDecision = allow_decision, res_error = None\<rparr>,
      \<lparr>statistics = \<lparr>totalRequests = 1, allowedRequests = 1, deniedRequests = 0,
                      transformedRequests = 0,
                          averageResponseTime =
                            Divide (Plus (Times (Integer 0) (Minus (Integer 1) (Integer 1))) (Integer 25)) (Integer 1),
                          errorCount = 0\<rparr>,
       evaluate_calls = [example_request example_parameters],
       executor_calls = [(''test-tool'', example_parameters)]\<rparr>)"
proof -
  have a: "dec_action allow_decision = ''allow''"
    by (simp add: allow_decision_def example_decision_def)
  from executeTool_try_decided [OF example_obtained, of allow_decision "Some echo_executor"
      initial_state] a
  show ?thesis
    by (simp add: executeTool_def handleAllowDecision_def echo_executor_def Let_def
        evaluated_state_def initial_state_def example_env_def example_config_def
        example_request_def allow_decision_def example_statistics_after_one)
qed

end
